theory Spec2Isabelle
  imports Main "HOL-Library.Word" "HOL-Library.Signed_Division"
begin

unbundle bit_operations_syntax

section \<open>Basic types\<close>

text \<open>
  The enumerations of \<open>pos.h\<close> are used by the code as array indices and in bit
  arithmetic (\<open>pt << 1 | c\<close>, \<open>2 * c\<close>, \<open>!color\<close>), so they are kept as numbers.
  Squares are numbered A1 = 0, H1 = 7, A8 = 56, H8 = 63.
\<close>

type_synonym u8 = "8 word"
type_synonym u64 = "64 word"
type_synonym Square = nat
type_synonym File = nat
type_synonym Rank = nat
type_synonym Color = nat
type_synonym PieceType = nat
type_synonym Piece = nat
type_synonym CastlingSide = nat

definition COLOR_WHITE :: Color where "COLOR_WHITE = 0"
definition COLOR_BLACK :: Color where "COLOR_BLACK = 1"

definition PIECE_TYPE_PAWN :: PieceType where "PIECE_TYPE_PAWN = 0"
definition PIECE_TYPE_KNIGHT :: PieceType where "PIECE_TYPE_KNIGHT = 1"
definition PIECE_TYPE_BISHOP :: PieceType where "PIECE_TYPE_BISHOP = 2"
definition PIECE_TYPE_ROOK :: PieceType where "PIECE_TYPE_ROOK = 3"
definition PIECE_TYPE_QUEEN :: PieceType where "PIECE_TYPE_QUEEN = 4"
definition PIECE_TYPE_KING :: PieceType where "PIECE_TYPE_KING = 5"

text \<open>
  Modelled from the spec: \<open>pos.h\<close> is not among the sources. \<open>PIECE_NONE\<close> denotes an
  empty square; it is a code different from the twelve pieces \<open>pt << 1 | c\<close>.
\<close>

definition PIECE_NONE :: Piece where "PIECE_NONE = 12"

definition CASTLING_SIDE_QUEEN :: CastlingSide where "CASTLING_SIDE_QUEEN = 0"
definition CASTLING_SIDE_KING :: CastlingSide where "CASTLING_SIDE_KING = 1"

definition RANK_1 :: Rank where "RANK_1 = 0"
definition RANK_3 :: Rank where "RANK_3 = 2"
definition RANK_4 :: Rank where "RANK_4 = 3"
definition RANK_5 :: Rank where "RANK_5 = 4"
definition RANK_6 :: Rank where "RANK_6 = 5"
definition RANK_8 :: Rank where "RANK_8 = 7"

definition FILE_A :: File where "FILE_A = 0"
definition FILE_H :: File where "FILE_H = 7"

text \<open>The logical negation \<open>!c\<close> of C on a colour.\<close>

definition lnot :: "Color \<Rightarrow> Color" where
  "lnot c = (if c = 0 then 1 else 0)"

section \<open>Bit primitives (bit.h)\<close>

text \<open>
  Modelled from the spec: \<open>bit.h\<close> is not among the sources. The spec lists popcount,
  bit-scan forward and reverse and pop-LSB. The scans of an empty bitboard are not
  defined by the source; the model returns 64 and 0 there.
\<close>

definition popcnt :: "u64 \<Rightarrow> nat" where
  "popcnt bb = length (filter (bit bb) [0..<64])"

definition get_ls1b :: "u64 \<Rightarrow> Square" where
  "get_ls1b bb = length (takeWhile (\<lambda>n. \<not> bit bb n) [0..<64])"

definition get_ms1b :: "u64 \<Rightarrow> Square" where
  "get_ms1b bb = 63 - length (takeWhile (\<lambda>n. \<not> bit bb n) (rev [0..<64]))"

text \<open>\<open>unset_ls1b(&bb)\<close> (pop-LSB) returns the square of the lowest set bit and clears it.\<close>

definition unset_ls1b :: "u64 \<Rightarrow> Square \<times> u64" where
  "unset_ls1b bb = (get_ls1b bb, unset_bit (get_ls1b bb) bb)"

lemma takeWhile_length_less:
  assumes "x \<in> set xs" "\<not> P x"
  shows "length (takeWhile P xs) < length xs"
proof -
  have "takeWhile P xs \<noteq> xs"
    using assms by (simp add: takeWhile_eq_all_conv) blast
  moreover have "takeWhile P xs = take (length (takeWhile P xs)) xs"
    by (rule takeWhile_eq_take)
  ultimately have "length (takeWhile P xs) \<noteq> length xs"
    by (metis take_all order_refl)
  with length_takeWhile_le [of P xs] show ?thesis by simp
qed

lemma nz_bit: "(bb :: u64) \<noteq> 0 \<Longrightarrow> \<exists>n<64. bit bb n"
proof (rule ccontr)
  assume nz: "bb \<noteq> 0" and b: "\<not> (\<exists>n<64. bit bb n)"
  have "bb = 0" by (rule bit_word_eqI) (use b in simp)
  with nz show False by simp
qed

lemma get_ls1b_bit:
  assumes "bb \<noteq> 0"
  shows "get_ls1b bb < 64" and "bit bb (get_ls1b bb)"
proof -
  from nz_bit [OF assms] obtain n where n: "n < 64" "bit bb n" by blast
  have lt: "length (takeWhile (\<lambda>n. \<not> bit bb n) [0..<64]) < length [0..<64]"
    by (rule takeWhile_length_less [of n]) (use n in simp_all)
  then show l: "get_ls1b bb < 64" by (simp add: get_ls1b_def)
  have "\<not> \<not> bit bb ([0..<64] ! length (takeWhile (\<lambda>n. \<not> bit bb n) [0..<64]))"
    by (rule nth_length_takeWhile [OF lt])
  then show "bit bb (get_ls1b bb)" using l by (simp add: get_ls1b_def)
qed

lemma popcnt_unset:
  assumes "bit bb l" "l < 64"
  shows "popcnt (unset_bit l bb) < popcnt bb"
proof -
  have "filter (bit (unset_bit l bb)) [0..<64] = filter (\<lambda>n. bit bb n \<and> n \<noteq> l) [0..<64]"
    by (rule filter_cong) (auto simp add: bit_unset_bit_iff)
  then have "filter (bit (unset_bit l bb)) [0..<64] = filter (\<lambda>n. n \<noteq> l) (filter (bit bb) [0..<64])"
    by (simp add: conj_commute)
  moreover have "length (filter (\<lambda>n. n \<noteq> l) (filter (bit bb) [0..<64])) < length (filter (bit bb) [0..<64])"
    by (rule length_filter_less [of l]) (use assms in simp_all)
  ultimately show ?thesis by (simp add: popcnt_def)
qed

text \<open>
  The squares visited by the loop \<open>while (bb) { sq = unset_ls1b(&bb); ... }\<close>, in the
  order of the visits. Every bitboard loop of the sources has this shape and does not
  write \<open>bb\<close> in its body, so each is a fold over this list.
\<close>

function bb_squares :: "u64 \<Rightarrow> Square list" where
  "bb_squares bb =
     (if bb = 0 then []
      else case unset_ls1b bb of (sq, bb') \<Rightarrow> sq # bb_squares bb')"
  by pat_completeness auto
termination
proof (relation "measure popcnt")
  show "wf (measure popcnt)" by simp
next
  fix bb :: u64 and sq :: Square and bb' :: u64
  assume "bb \<noteq> 0" and "(sq, bb') = unset_ls1b bb"
  then show "(bb', bb) \<in> measure popcnt"
    using popcnt_unset [OF get_ls1b_bit(2) get_ls1b_bit(1), of bb]
    by (simp add: unset_ls1b_def)
qed

section \<open>Positions (pos.c)\<close>

record irreversible_state =
  castling_rights_and_enpassant :: u8
  halfmove_clock :: u8
  captured_piece :: u8

text \<open>
  \<open>irr_states\<close> is the grow-only array of frames and \<open>irr_state_idx\<close> the index of the
  current one; the capacity of the array is the length of the list.
\<close>

record position =
  irr_states :: "irreversible_state list"
  irr_state_idx :: nat
  side_to_move :: Color
  fullmove_counter :: int
  color_bb :: "u64 list"
  type_bb :: "u64 list"
  board :: "Piece list"

definition cur_irr :: "position \<Rightarrow> irreversible_state" where
  "cur_irr pos = irr_states pos ! irr_state_idx pos"

definition file_rank_to_square :: "File \<Rightarrow> Rank \<Rightarrow> Square" where
  "file_rank_to_square f r = 8 * r + f"

definition get_file :: "Square \<Rightarrow> File" where
  "get_file sq = sq mod 8"

definition get_rank :: "Square \<Rightarrow> Rank" where
  "get_rank sq = sq div 8"

definition get_piece_color :: "Piece \<Rightarrow> Color" where
  "get_piece_color piece = piece AND 1"

definition get_piece_type :: "Piece \<Rightarrow> PieceType" where
  "get_piece_type piece = drop_bit 1 piece"

definition create_piece :: "PieceType \<Rightarrow> Color \<Rightarrow> Piece" where
  "create_piece pt c = push_bit 1 pt OR c"

definition has_castling_right :: "position \<Rightarrow> Color \<Rightarrow> CastlingSide \<Rightarrow> bool" where
  "has_castling_right pos c side =
     (castling_rights_and_enpassant (cur_irr pos) AND push_bit (2 * c) (push_bit side 1) \<noteq> 0)"

text \<open>\<open>enpassant_possible\<close> returns the masked byte as an \<open>int\<close>: 0 or 128.\<close>

definition enpassant_possible :: "position \<Rightarrow> int" where
  "enpassant_possible pos = uint (castling_rights_and_enpassant (cur_irr pos) AND 0x80)"

definition get_side_to_move :: "position \<Rightarrow> Color" where
  "get_side_to_move pos = side_to_move pos"

definition get_enpassant_square :: "position \<Rightarrow> Square" where
  "get_enpassant_square pos =
     (let f = unat (drop_bit 4 (castling_rights_and_enpassant (cur_irr pos) AND 0x70));
          r = (if side_to_move pos = COLOR_WHITE then RANK_6 else RANK_3)
      in file_rank_to_square f r)"

definition get_piece_at :: "position \<Rightarrow> Square \<Rightarrow> Piece" where
  "get_piece_at pos sq = board pos ! sq"

definition get_color_bitboard :: "position \<Rightarrow> Color \<Rightarrow> u64" where
  "get_color_bitboard pos c = color_bb pos ! c"

definition get_piece_bitboard :: "position \<Rightarrow> Piece \<Rightarrow> u64" where
  "get_piece_bitboard pos piece =
     (let type = get_piece_type piece; color = get_piece_color piece
      in type_bb pos ! type AND color_bb pos ! color)"

definition get_king_square :: "position \<Rightarrow> Color \<Rightarrow> Square" where
  "get_king_square pos c = get_ls1b (get_piece_bitboard pos (create_piece PIECE_TYPE_KING c))"

definition get_number_of_pieces :: "position \<Rightarrow> Piece \<Rightarrow> int" where
  "get_number_of_pieces pos piece = int (popcnt (get_piece_bitboard pos piece))"

text \<open>
  \<open>get_square_color\<close>: the mask holds the dark squares of the checkerboard; the result
  is 0 on a dark square and 1 on a light one.
\<close>

definition get_square_color :: "Square \<Rightarrow> nat" where
  "get_square_color sq =
     (let dark = (0xaa55aa55aa55aa55 :: u64)
      in if drop_bit sq dark AND 1 = 0 then 1 else 0)"

text \<open>
  \<open>pos_equal\<close>, the comparison used for the repetition rule. The two loops return
  \<open>false\<close> at the first difference, which is the conjunction over their ranges.
\<close>

definition pos_equal :: "position \<Rightarrow> position \<Rightarrow> bool" where
  "pos_equal pos1 pos2 =
     (if get_side_to_move pos1 \<noteq> get_side_to_move pos2 then False
      else if \<not> list_all (\<lambda>c. list_all (\<lambda>s.
                  has_castling_right pos1 c s = has_castling_right pos2 c s)
                [CASTLING_SIDE_QUEEN ..< Suc CASTLING_SIDE_KING])
              [COLOR_WHITE ..< Suc COLOR_BLACK] then False
      else if enpassant_possible pos1 \<noteq> enpassant_possible pos2 then False
      else if enpassant_possible pos1 \<noteq> 0 \<and> enpassant_possible pos2 \<noteq> 0 \<and>
              get_enpassant_square pos1 \<noteq> get_enpassant_square pos2 then False
      else if color_bb pos1 ! COLOR_WHITE \<noteq> color_bb pos2 ! COLOR_WHITE then False
      else if color_bb pos1 ! COLOR_BLACK \<noteq> color_bb pos2 ! COLOR_BLACK then False
      else list_all (\<lambda>pt. type_bb pos1 ! pt = type_bb pos2 ! pt)
             [PIECE_TYPE_PAWN ..< Suc PIECE_TYPE_KING])"

text \<open>Writers of the two counters that \<open>pos_equal\<close> does not read.\<close>

definition set_halfmove_clock :: "position \<Rightarrow> u8 \<Rightarrow> position" where
  "set_halfmove_clock pos v =
     pos\<lparr>irr_states := (irr_states pos)[irr_state_idx pos := (cur_irr pos)\<lparr>halfmove_clock := v\<rparr>]\<rparr>"

definition set_fullmove_counter :: "position \<Rightarrow> int \<Rightarrow> position" where
  "set_fullmove_counter pos v = pos\<lparr>fullmove_counter := v\<rparr>"

section \<open>Zobrist hashing (tt.c)\<close>

definition NUM_PIECES :: nat where "NUM_PIECES = 12"
definition NUM_SQUARES :: nat where "NUM_SQUARES = 64"
definition NUM_CASTLING_RIGHTS :: nat where "NUM_CASTLING_RIGHTS = 16"
definition NUM_EN_PASSANT_FILES :: nat where "NUM_EN_PASSANT_FILES = 8"

text \<open>
  The loop of \<open>hash_pos\<close> over the two colours. Each pass assigns \<open>rights\<close> afresh
  (\<open>rights = (has_king_right << 1) | has_queen_right\<close>) and then shifts it by \<open>2 * color\<close>;
  the value of the previous pass is not read.
\<close>

definition hash_rights :: "position \<Rightarrow> u8" where
  "hash_rights pos =
     fold (\<lambda>color rights.
             let has_king_right = has_castling_right pos color CASTLING_SIDE_KING;
                 has_queen_right = has_castling_right pos color CASTLING_SIDE_QUEEN;
                 rights1 = push_bit 1 (of_bool has_king_right) OR of_bool has_queen_right
             in push_bit (2 * color) rights1)
          [COLOR_WHITE ..< Suc COLOR_BLACK] 0"

text \<open>
  \<open>hash_pos\<close>. The table \<open>zobrist_numbers\<close> is filled from the random number generator,
  which is not among the sources; it is the parameter \<open>z\<close>.
\<close>

definition hash_pos :: "(nat \<Rightarrow> u64) \<Rightarrow> position \<Rightarrow> u64" where
  "hash_pos z pos =
     (let key1 = fold (\<lambda>sq key.
                    let piece = get_piece_at pos sq
                    in if piece \<noteq> PIECE_NONE then key XOR z (NUM_SQUARES * piece + sq) else key)
                  [0..<NUM_SQUARES] 0;
          off1 = NUM_PIECES * NUM_SQUARES;
          key2 = key1 XOR z (off1 + unat (hash_rights pos));
          off2 = off1 + NUM_CASTLING_RIGHTS;
          key3 = (if enpassant_possible pos \<noteq> 0
                  then key2 XOR z (off2 + get_file (get_enpassant_square pos)) else key2);
          off3 = off2 + NUM_EN_PASSANT_FILES
      in if get_side_to_move pos = COLOR_BLACK then key3 XOR z off3 else key3)"

section \<open>Static evaluation (eval.c)\<close>

record score =
  mg :: int
  eg :: int

text \<open>The piece-square tables; both versions of \<open>eval.c\<close> hold the same twelve tables.\<close>

definition mg_pawn_sq_table :: "int list" where
  "mg_pawn_sq_table =
     [0, 0, 0, 0, 0, 0, 0, 0,
      98, 134, 61, 95, 68, 126, 34, - 11,
      - 6, 7, 26, 31, 65, 56, 25, - 20,
      - 14, 13, 6, 21, 23, 12, 17, - 23,
      - 27, - 2, - 5, 12, 17, 6, 10, - 25,
      - 26, - 4, - 4, - 10, 3, 3, 33, - 12,
      - 35, - 1, - 20, - 23, - 15, 24, 38, - 22,
      0, 0, 0, 0, 0, 0, 0, 0]"

definition eg_pawn_sq_table :: "int list" where
  "eg_pawn_sq_table =
     [0, 0, 0, 0, 0, 0, 0, 0,
      178, 173, 158, 134, 147, 132, 165, 187,
      94, 100, 85, 67, 56, 53, 82, 84,
      32, 24, 13, 5, - 2, 4, 17, 17,
      13, 9, - 3, - 7, - 7, - 8, 3, - 1,
      4, 7, - 6, 1, 0, - 5, - 1, - 8,
      13, 8, 8, 10, 13, 0, 2, - 7,
      0, 0, 0, 0, 0, 0, 0, 0]"

definition mg_knight_sq_table :: "int list" where
  "mg_knight_sq_table =
     [- 167, - 89, - 34, - 49, 61, - 97, - 15, - 107,
      - 73, - 41, 72, 36, 23, 62, 7, - 17,
      - 47, 60, 37, 65, 84, 129, 73, 44,
      - 9, 17, 19, 53, 37, 69, 18, 22,
      - 13, 4, 16, 13, 28, 19, 21, - 8,
      - 23, - 9, 12, 10, 19, 17, 25, - 16,
      - 29, - 53, - 12, - 3, - 1, 18, - 14, - 19,
      - 105, - 21, - 58, - 33, - 17, - 28, - 19, - 23]"

definition eg_knight_sq_table :: "int list" where
  "eg_knight_sq_table =
     [- 58, - 38, - 13, - 28, - 31, - 27, - 63, - 99,
      - 25, - 8, - 25, - 2, - 9, - 25, - 24, - 52,
      - 24, - 20, 10, 9, - 1, - 9, - 19, - 41,
      - 17, 3, 22, 22, 22, 11, 8, - 18,
      - 18, - 6, 16, 25, 16, 17, 4, - 18,
      - 23, - 3, - 1, 15, 10, - 3, - 20, - 22,
      - 42, - 20, - 10, - 5, - 2, - 20, - 23, - 44,
      - 29, - 51, - 23, - 15, - 22, - 18, - 50, - 64]"

definition mg_bishop_sq_table :: "int list" where
  "mg_bishop_sq_table =
     [- 29, 4, - 82, - 37, - 25, - 42, 7, - 8,
      - 26, 16, - 18, - 13, 30, 59, 18, - 47,
      - 16, 37, 43, 40, 35, 50, 37, - 2,
      - 4, 5, 19, 50, 37, 37, 7, - 2,
      - 6, 13, 13, 26, 34, 12, 10, 4,
      0, 15, 15, 15, 14, 27, 18, 10,
      4, 15, 16, 0, 7, 21, 33, 1,
      - 33, - 3, - 14, - 21, - 13, - 12, - 39, - 21]"

definition eg_bishop_sq_table :: "int list" where
  "eg_bishop_sq_table =
     [- 14, - 21, - 11, - 8, - 7, - 9, - 17, - 24,
      - 8, - 4, 7, - 12, - 3, - 13, - 4, - 14,
      2, - 8, 0, - 1, - 2, 6, 0, 4,
      - 3, 9, 12, 9, 14, 10, 3, 2,
      - 6, 3, 13, 19, 7, 10, - 3, - 9,
      - 12, - 3, 8, 10, 13, 3, - 7, - 15,
      - 14, - 18, - 7, - 1, 4, - 9, - 15, - 27,
      - 23, - 9, - 23, - 5, - 9, - 16, - 5, - 17]"

definition mg_rook_sq_table :: "int list" where
  "mg_rook_sq_table =
     [32, 42, 32, 51, 63, 9, 31, 43,
      27, 32, 58, 62, 80, 67, 26, 44,
      - 5, 19, 26, 36, 17, 45, 61, 16,
      - 24, - 11, 7, 26, 24, 35, - 8, - 20,
      - 36, - 26, - 12, - 1, 9, - 7, 6, - 23,
      - 45, - 25, - 16, - 17, 3, 0, - 5, - 33,
      - 44, - 16, - 20, - 9, - 1, 11, - 6, - 71,
      - 19, - 13, 1, 17, 16, 7, - 37, - 26]"

definition eg_rook_sq_table :: "int list" where
  "eg_rook_sq_table =
     [13, 10, 18, 15, 12, 12, 8, 5,
      11, 13, 13, 11, - 3, 3, 8, 3,
      7, 7, 7, 5, 4, - 3, - 5, - 3,
      4, 3, 13, 1, 2, 1, - 1, 2,
      3, 5, 8, 4, - 5, - 6, - 8, - 11,
      - 4, 0, - 5, - 1, - 7, - 12, - 8, - 16,
      - 6, - 6, 0, 2, - 9, - 9, - 11, - 3,
      - 9, 2, 3, - 1, - 5, - 13, 4, - 20]"

definition mg_queen_sq_table :: "int list" where
  "mg_queen_sq_table =
     [- 28, 0, 29, 12, 59, 44, 43, 45,
      - 24, - 39, - 5, 1, - 16, 57, 28, 54,
      - 13, - 17, 7, 8, 29, 56, 47, 57,
      - 27, - 27, - 16, - 16, - 1, 17, - 2, 1,
      - 9, - 26, - 9, - 10, - 2, - 4, 3, - 3,
      - 14, 2, - 11, - 2, - 5, 2, 14, 5,
      - 35, - 8, 11, 2, 8, 15, - 3, 1,
      - 1, - 18, - 9, 10, - 15, - 25, - 31, - 50]"

definition eg_queen_sq_table :: "int list" where
  "eg_queen_sq_table =
     [- 9, 22, 22, 27, 27, 19, 10, 20,
      - 17, 20, 32, 41, 58, 25, 30, 0,
      - 20, 6, 9, 49, 47, 35, 19, 9,
      3, 22, 24, 45, 57, 40, 57, 36,
      - 18, 28, 19, 47, 31, 34, 39, 23,
      - 16, - 27, 15, 6, 9, 17, 10, 5,
      - 22, - 23, - 30, - 16, - 16, - 23, - 36, - 32,
      - 33, - 28, - 22, - 43, - 5, - 32, - 20, - 41]"

definition mg_king_sq_table :: "int list" where
  "mg_king_sq_table =
     [- 65, 23, 16, - 15, - 56, - 34, 2, 13,
      29, - 1, - 20, - 7, - 8, - 4, - 38, - 29,
      - 9, 24, 2, - 16, - 20, 6, 22, - 22,
      - 17, - 20, - 12, - 27, - 30, - 25, - 14, - 36,
      - 49, - 1, - 27, - 39, - 46, - 44, - 33, - 51,
      - 14, - 14, - 22, - 46, - 44, - 30, - 15, - 27,
      1, 7, - 8, - 64, - 43, - 16, 9, 8,
      - 15, 36, 12, - 54, 8, - 28, 24, 14]"

definition eg_king_sq_table :: "int list" where
  "eg_king_sq_table =
     [- 74, - 35, - 18, - 18, - 11, 15, 4, - 17,
      - 12, 17, 14, 17, 17, 38, 23, 11,
      10, 17, 23, 15, 20, 45, 44, 13,
      - 8, 22, 24, 27, 26, 33, 26, 3,
      - 18, - 4, 21, 24, 27, 23, 9, - 11,
      - 19, - 3, 11, 21, 23, 16, 7, - 9,
      - 27, - 11, 4, 13, 14, 4, - 5, - 17,
      - 53, - 34, - 21, - 11, - 28, - 14, - 24, - 43]"
definition mg_tables :: "PieceType \<Rightarrow> int list" where
  "mg_tables pt =
     [mg_pawn_sq_table, mg_knight_sq_table, mg_bishop_sq_table,
      mg_rook_sq_table, mg_queen_sq_table, mg_king_sq_table] ! pt"

definition eg_tables :: "PieceType \<Rightarrow> int list" where
  "eg_tables pt =
     [eg_pawn_sq_table, eg_knight_sq_table, eg_bishop_sq_table,
      eg_rook_sq_table, eg_queen_sq_table, eg_king_sq_table] ! pt"

definition point_value :: "PieceType \<Rightarrow> int" where
  "point_value pt = [100, 325, 350, 500, 1000, 10000] ! pt"

definition A1 :: Square where "A1 = 0"
definition B1 :: Square where "B1 = 1"
definition C1 :: Square where "C1 = 2"
definition D1 :: Square where "D1 = 3"
definition E1 :: Square where "E1 = 4"
definition F1 :: Square where "F1 = 5"
definition G1 :: Square where "G1 = 6"
definition H1 :: Square where "H1 = 7"
definition A8 :: Square where "A8 = 56"
definition B8 :: Square where "B8 = 57"
definition C8 :: Square where "C8 = 58"
definition D8 :: Square where "D8 = 59"
definition E8 :: Square where "E8 = 60"
definition F8 :: Square where "F8 = 61"
definition G8 :: Square where "G8 = 62"
definition H8 :: Square where "H8 = 63"

text \<open>
  \<open>sq_tables[2][6][64]\<close>, indexed by colour, piece type and square. The array is static
  (all zero) and \<open>init_sq_tables\<close> fills it with two nested loops; one pass of the inner
  loop stores both fields of the white entry at \<open>sq ^ 56\<close> and of the black entry at
  \<open>sq\<close>.
\<close>

type_synonym sq_tables_t = "Color \<times> PieceType \<times> Square \<Rightarrow> score"

definition init_sq_tables_step :: "PieceType \<Rightarrow> Square \<Rightarrow> sq_tables_t \<Rightarrow> sq_tables_t" where
  "init_sq_tables_step pt sq t =
     (let t1 = t((COLOR_WHITE, pt, sq XOR 56) :=
                  \<lparr>mg = mg_tables pt ! sq, eg = eg_tables pt ! sq\<rparr>)
      in t1((COLOR_BLACK, pt, sq) := \<lparr>mg = mg_tables pt ! sq, eg = eg_tables pt ! sq\<rparr>))"

definition init_sq_tables :: sq_tables_t where
  "init_sq_tables =
     fold (\<lambda>pt. fold (init_sq_tables_step pt) [A1 ..< Suc H8])
       [PIECE_TYPE_PAWN ..< Suc PIECE_TYPE_KING] (\<lambda>_. \<lparr>mg = 0, eg = 0\<rparr>)"

text \<open>\<open>get_phase\<close> of \<open>pos.c\<close>; the divisions are those of C, truncating.\<close>

definition get_phase :: "position \<Rightarrow> int" where
  "get_phase pos =
     (let weights = [0, 1, 1, 2, 4 :: int];
          neutral = 16 * weights ! PIECE_TYPE_PAWN + 4 * weights ! PIECE_TYPE_KNIGHT +
                    4 * weights ! PIECE_TYPE_BISHOP + 4 * weights ! PIECE_TYPE_ROOK +
                    2 * weights ! PIECE_TYPE_QUEEN;
          phase = fold (\<lambda>c. fold (\<lambda>pt phase.
                      phase - get_number_of_pieces pos (create_piece pt c) * weights ! pt)
                    [PIECE_TYPE_PAWN ..< Suc PIECE_TYPE_QUEEN])
                  [COLOR_WHITE ..< Suc COLOR_BLACK] neutral
      in (256 * phase + (neutral sdiv 2)) sdiv neutral)"

definition compute_material :: "position \<Rightarrow> int" where
  "compute_material pos =
     (let c = get_side_to_move pos;
          num = (\<lambda>pt col. get_number_of_pieces pos (create_piece pt col))
      in point_value PIECE_TYPE_PAWN * (num PIECE_TYPE_PAWN c - num PIECE_TYPE_PAWN (lnot c))
       + point_value PIECE_TYPE_KNIGHT * (num PIECE_TYPE_KNIGHT c - num PIECE_TYPE_KNIGHT (lnot c))
       + point_value PIECE_TYPE_ROOK * (num PIECE_TYPE_ROOK c - num PIECE_TYPE_ROOK (lnot c))
       + point_value PIECE_TYPE_BISHOP * (num PIECE_TYPE_BISHOP c - num PIECE_TYPE_BISHOP (lnot c))
       + point_value PIECE_TYPE_QUEEN * (num PIECE_TYPE_QUEEN c - num PIECE_TYPE_QUEEN (lnot c))
       + point_value PIECE_TYPE_KING * (num PIECE_TYPE_KING c - num PIECE_TYPE_KING (lnot c)))"

text \<open>The body of the loop of \<open>get_smallest_pawn_distance\<close> and the function.\<close>

definition pawn_distance_step :: "File \<Rightarrow> Rank \<Rightarrow> Square \<Rightarrow> int \<Rightarrow> int" where
  "pawn_distance_step king_file king_rank sq dist =
     (let file = get_file sq; rank = get_rank sq;
          file_dist = \<bar>int king_file - int file\<bar>;
          rank_dist = \<bar>int king_rank - int rank\<bar>;
          tmp = (if file_dist > rank_dist then file_dist else rank_dist)
      in if tmp < dist then tmp else dist)"

definition get_smallest_pawn_distance :: "position \<Rightarrow> Color \<Rightarrow> int" where
  "get_smallest_pawn_distance pos color =
     (let king_sq = get_king_square pos color;
          king_file = get_file king_sq;
          king_rank = get_rank king_sq;
          pawn = create_piece PIECE_TYPE_PAWN color;
          pawn_bb = get_piece_bitboard pos pawn AND get_color_bitboard pos color;
          dist = fold (pawn_distance_step king_file king_rank) (bb_squares pawn_bb) 6
      in dist - 1)"

definition has_bishop_pair :: "position \<Rightarrow> Color \<Rightarrow> bool" where
  "has_bishop_pair pos color =
     (let light_bb = (0x5555555555555555 :: u64);
          dark_bb = (0xAAAAAAAAAAAAAAAA :: u64);
          bishop = create_piece PIECE_TYPE_BISHOP color;
          piece_bb = get_piece_bitboard pos bishop
      in piece_bb AND light_bb \<noteq> 0 \<and> piece_bb AND dark_bb \<noteq> 0)"

text \<open>
  \<open>evaluate\<close> of \<open>eval.c\<close>. The function accumulates the pair \<open>score\<close> in four stages
  and returns the interpolation of the pair; each stage is a definition of its own.
  First the loop over the squares.
\<close>

definition pst_step :: "position \<Rightarrow> Color \<Rightarrow> Square \<Rightarrow> score \<Rightarrow> score" where
  "pst_step pos color sq sc =
     (let piece = get_piece_at pos sq
      in if piece = PIECE_NONE then sc
         else let pt = get_piece_type piece
              in if get_piece_color piece = color
                 then \<lparr>mg = mg sc + mg (init_sq_tables (color, pt, sq)),
                       eg = eg sc + eg (init_sq_tables (color, pt, sq))\<rparr>
                 else \<lparr>mg = mg sc - mg (init_sq_tables (lnot color, pt, sq)),
                       eg = eg sc - eg (init_sq_tables (lnot color, pt, sq))\<rparr>)"

definition pst_score :: "position \<Rightarrow> score" where
  "pst_score pos = fold (pst_step pos (get_side_to_move pos)) [A1 ..< Suc H8] \<lparr>mg = 0, eg = 0\<rparr>"

definition bishop_pair_score :: "position \<Rightarrow> score \<Rightarrow> score" where
  "bishop_pair_score pos sc =
     (let color = get_side_to_move pos;
          sc1 = (if has_bishop_pair pos color
                 then \<lparr>mg = mg sc + point_value PIECE_TYPE_PAWN sdiv 2,
                       eg = eg sc + point_value PIECE_TYPE_PAWN sdiv 2\<rparr> else sc)
      in if has_bishop_pair pos (lnot color)
         then \<lparr>mg = mg sc1 - point_value PIECE_TYPE_PAWN sdiv 2,
               eg = eg sc1 - point_value PIECE_TYPE_PAWN sdiv 2\<rparr> else sc1)"

definition material_score :: "position \<Rightarrow> score \<Rightarrow> score" where
  "material_score pos sc =
     (let material = compute_material pos
      in \<lparr>mg = mg sc + material, eg = eg sc + material\<rparr>)"

definition king_pawn_score :: "position \<Rightarrow> score \<Rightarrow> score" where
  "king_pawn_score pos sc =
     (let color = get_side_to_move pos;
          sc1 = sc\<lparr>eg := eg sc + 16 * get_smallest_pawn_distance pos (lnot color)\<rparr>
      in sc1\<lparr>eg := eg sc1 - 16 * get_smallest_pawn_distance pos color\<rparr>)"

definition evaluate_score :: "position \<Rightarrow> score" where
  "evaluate_score pos =
     king_pawn_score pos (material_score pos (bishop_pair_score pos (pst_score pos)))"

definition evaluate :: "position \<Rightarrow> int" where
  "evaluate pos =
     (let phase = get_phase pos; sc = evaluate_score pos
      in ((mg sc * (256 - phase)) + (eg sc * phase)) sdiv 256)"

subsection \<open>The second version (src/eval.c)\<close>

text \<open>
  The repository holds a second \<open>eval.c\<close> under \<open>src/\<close>. Its functions have the names of
  the first; here they carry the suffix 2.

  Modelled from the spec: \<open>eval.h\<close> is not among the sources. The phase runs from 0
  (opening) to 256 (bare kings), which are \<open>INITIAL_PHASE\<close> and \<open>FINAL_PHASE\<close>.
\<close>

definition INITIAL_PHASE :: int where "INITIAL_PHASE = 0"
definition FINAL_PHASE :: int where "FINAL_PHASE = 256"

definition get_square_value :: "Piece \<Rightarrow> Square \<Rightarrow> bool \<Rightarrow> int" where
  "get_square_value piece sq middle_game =
     (let pt = get_piece_type piece
      in if get_piece_color piece = COLOR_WHITE
         then (if middle_game then mg_tables pt ! (sq XOR 56) else eg_tables pt ! (sq XOR 56))
         else (if middle_game then mg_tables pt ! sq else eg_tables pt ! sq))"

definition material_step2 :: "position \<Rightarrow> Color \<Rightarrow> PieceType \<Rightarrow> score \<Rightarrow> score" where
  "material_step2 pos color pt sc =
     (let p1 = create_piece pt color; p2 = create_piece pt (lnot color);
          nb1 = get_number_of_pieces pos p1;
          nb2 = get_number_of_pieces pos p2;
          tmp = point_value pt * (nb1 - nb2)
      in \<lparr>mg = mg sc + tmp, eg = eg sc + tmp\<rparr>)"

definition pst_step2 :: "position \<Rightarrow> Color \<Rightarrow> Square \<Rightarrow> score \<Rightarrow> score" where
  "pst_step2 pos color sq sc =
     (let piece = get_piece_at pos sq
      in if piece = PIECE_NONE then sc
         else if get_piece_color piece = color
              then \<lparr>mg = mg sc + get_square_value piece sq True,
                    eg = eg sc + get_square_value piece sq False\<rparr>
              else \<lparr>mg = mg sc - get_square_value piece sq True,
                    eg = eg sc + get_square_value piece sq False\<rparr>)"

definition evaluate_score2 :: "position \<Rightarrow> score" where
  "evaluate_score2 pos =
     (let color = get_side_to_move pos;
          sc1 = fold (material_step2 pos color)
                  [PIECE_TYPE_PAWN ..< Suc PIECE_TYPE_QUEEN] \<lparr>mg = 0, eg = 0\<rparr>
      in fold (pst_step2 pos color) [A1 ..< Suc H8] sc1)"

definition evaluate2 :: "position \<Rightarrow> int" where
  "evaluate2 pos =
     (let phase = get_phase pos; sc = evaluate_score2 pos
      in ((mg sc * (FINAL_PHASE - phase)) + eg sc * (phase - INITIAL_PHASE)) sdiv FINAL_PHASE)"

section \<open>Moves (move.h)\<close>

text \<open>
  Modelled from the spec: \<open>move.h\<close> and \<open>move.c\<close> are not among the sources. A move packs
  an origin (6 bits), a target (6 bits) and a move type (4 bits) into 16 bits; the layout
  of the packing is not given, so a move is the record of its three fields, and the
  all-zero value \<open>0\<close>, which the search uses for "no move", is the record of three zeros.
  The move types are numbered in the order in which the spec lists them.
\<close>

record Move =
  origin :: Square
  target :: Square
  move_type :: nat

definition MOVE_OTHER :: nat where "MOVE_OTHER = 0"
definition MOVE_DOUBLE_PAWN_PUSH :: nat where "MOVE_DOUBLE_PAWN_PUSH = 1"
definition MOVE_KING_CASTLE :: nat where "MOVE_KING_CASTLE = 2"
definition MOVE_QUEEN_CASTLE :: nat where "MOVE_QUEEN_CASTLE = 3"
definition MOVE_CAPTURE :: nat where "MOVE_CAPTURE = 4"
definition MOVE_EP_CAPTURE :: nat where "MOVE_EP_CAPTURE = 5"
definition MOVE_KNIGHT_PROMOTION :: nat where "MOVE_KNIGHT_PROMOTION = 6"
definition MOVE_BISHOP_PROMOTION :: nat where "MOVE_BISHOP_PROMOTION = 7"
definition MOVE_ROOK_PROMOTION :: nat where "MOVE_ROOK_PROMOTION = 8"
definition MOVE_QUEEN_PROMOTION :: nat where "MOVE_QUEEN_PROMOTION = 9"
definition MOVE_KNIGHT_PROMOTION_CAPTURE :: nat where "MOVE_KNIGHT_PROMOTION_CAPTURE = 10"
definition MOVE_BISHOP_PROMOTION_CAPTURE :: nat where "MOVE_BISHOP_PROMOTION_CAPTURE = 11"
definition MOVE_ROOK_PROMOTION_CAPTURE :: nat where "MOVE_ROOK_PROMOTION_CAPTURE = 12"
definition MOVE_QUEEN_PROMOTION_CAPTURE :: nat where "MOVE_QUEEN_PROMOTION_CAPTURE = 13"

definition create_move :: "Square \<Rightarrow> Square \<Rightarrow> nat \<Rightarrow> Move" where
  "create_move from to type = \<lparr>origin = from, target = to, move_type = type\<rparr>"

definition get_move_origin :: "Move \<Rightarrow> Square" where
  "get_move_origin move = origin move"

definition get_move_target :: "Move \<Rightarrow> Square" where
  "get_move_target move = target move"

definition get_move_type :: "Move \<Rightarrow> nat" where
  "get_move_type move = move_type move"

definition no_move :: Move where
  "no_move = \<lparr>origin = 0, target = 0, move_type = 0\<rparr>"

definition move_is_capture :: "Move \<Rightarrow> bool" where
  "move_is_capture move =
     (get_move_type move = MOVE_CAPTURE \<or> get_move_type move = MOVE_EP_CAPTURE \<or>
      (MOVE_KNIGHT_PROMOTION_CAPTURE \<le> get_move_type move \<and>
       get_move_type move \<le> MOVE_QUEEN_PROMOTION_CAPTURE))"

definition move_is_promotion :: "Move \<Rightarrow> bool" where
  "move_is_promotion move =
     (MOVE_KNIGHT_PROMOTION \<le> get_move_type move \<and>
      get_move_type move \<le> MOVE_QUEEN_PROMOTION_CAPTURE)"

definition move_is_castling :: "Move \<Rightarrow> bool" where
  "move_is_castling move =
     (get_move_type move = MOVE_KING_CASTLE \<or> get_move_type move = MOVE_QUEEN_CASTLE)"

definition move_is_quiet :: "Move \<Rightarrow> bool" where
  "move_is_quiet move = (\<not> move_is_capture move \<and> \<not> move_is_promotion move)"

section \<open>Move generation (movegen.c)\<close>

definition rank_bitboards :: "Rank \<Rightarrow> u64" where
  "rank_bitboards r =
     [0x00000000000000ff, 0x000000000000ff00, 0x0000000000ff0000, 0x00000000ff000000,
      0x000000ff00000000, 0x0000ff0000000000, 0x00ff000000000000, 0xff00000000000000] ! r"

definition file_bitboards :: "File \<Rightarrow> u64" where
  "file_bitboards f =
     [0x0101010101010101, 0x0202020202020202, 0x0404040404040404, 0x0808080808080808,
      0x1010101010101010, 0x2020202020202020, 0x4040404040404040, 0x8080808080808080] ! f"

definition move_west :: "u64 \<Rightarrow> nat \<Rightarrow> u64" where
  "move_west bb n = ((\<lambda>bb. drop_bit 1 bb AND NOT (file_bitboards FILE_H)) ^^ n) bb"

definition move_east :: "u64 \<Rightarrow> nat \<Rightarrow> u64" where
  "move_east bb n = ((\<lambda>bb. push_bit 1 bb AND NOT (file_bitboards FILE_A)) ^^ n) bb"

definition move_south :: "u64 \<Rightarrow> nat \<Rightarrow> u64" where
  "move_south bb n = drop_bit (8 * n) bb"

definition move_north :: "u64 \<Rightarrow> nat \<Rightarrow> u64" where
  "move_north bb n = push_bit (8 * n) bb"

definition move_southwest :: "u64 \<Rightarrow> nat \<Rightarrow> u64" where
  "move_southwest bb n = move_west (move_south bb n) n"

definition move_southeast :: "u64 \<Rightarrow> nat \<Rightarrow> u64" where
  "move_southeast bb n = move_east (move_south bb n) n"

definition move_northwest :: "u64 \<Rightarrow> nat \<Rightarrow> u64" where
  "move_northwest bb n = move_west (move_north bb n) n"

definition move_northeast :: "u64 \<Rightarrow> nat \<Rightarrow> u64" where
  "move_northeast bb n = move_east (move_north bb n) n"

subsection \<open>Rays and the slow sliding attacks\<close>

datatype Direction = NORTH | SOUTH | NORTHEAST | SOUTHEAST | EAST | WEST | NORTHWEST | SOUTHWEST

definition get_north_ray :: "Square \<Rightarrow> u64" where
  "get_north_ray sq = push_bit sq 0x0101010101010100"

definition get_south_ray :: "Square \<Rightarrow> u64" where
  "get_south_ray sq = drop_bit (sq XOR 63) 0x0080808080808080"

definition get_northeast_ray :: "Square \<Rightarrow> u64" where
  "get_northeast_ray sq = push_bit (get_rank sq * 8) (move_east 0x8040201008040200 (get_file sq))"

definition get_northwest_ray :: "Square \<Rightarrow> u64" where
  "get_northwest_ray sq =
     push_bit (get_rank sq * 8) (move_west 0x0102040810204000 (7 - get_file sq))"

definition get_southeast_ray :: "Square \<Rightarrow> u64" where
  "get_southeast_ray sq =
     drop_bit ((7 - get_rank sq) * 8) (move_east 0x0002040810204080 (get_file sq))"

definition get_southwest_ray :: "Square \<Rightarrow> u64" where
  "get_southwest_ray sq =
     drop_bit ((7 - get_rank sq) * 8) (move_west 0x0040201008040201 (7 - get_file sq))"

definition get_east_ray :: "Square \<Rightarrow> u64" where
  "get_east_ray sq = 2 * (push_bit (sq OR 7) 1 - push_bit sq 1)"

definition get_west_ray :: "Square \<Rightarrow> u64" where
  "get_west_ray sq = push_bit sq 1 - push_bit (sq AND 56) 1"

text \<open>\<open>ray_bitboards[dir][sq]\<close> as \<open>init_rays\<close> fills it.\<close>

fun ray_bitboards :: "Direction \<Rightarrow> Square \<Rightarrow> u64" where
  "ray_bitboards NORTH sq = get_north_ray sq"
| "ray_bitboards SOUTH sq = get_south_ray sq"
| "ray_bitboards NORTHEAST sq = get_northeast_ray sq"
| "ray_bitboards NORTHWEST sq = get_northwest_ray sq"
| "ray_bitboards SOUTHEAST sq = get_southeast_ray sq"
| "ray_bitboards SOUTHWEST sq = get_southwest_ray sq"
| "ray_bitboards EAST sq = get_east_ray sq"
| "ray_bitboards WEST sq = get_west_ray sq"

fun dir_mask :: "Direction \<Rightarrow> u64" where
  "dir_mask NORTH = 0"
| "dir_mask SOUTH = 0xffffffffffffffff"
| "dir_mask NORTHEAST = 0"
| "dir_mask SOUTHEAST = 0xffffffffffffffff"
| "dir_mask EAST = 0"
| "dir_mask WEST = 0xffffffffffffffff"
| "dir_mask NORTHWEST = 0"
| "dir_mask SOUTHWEST = 0xffffffffffffffff"

fun dir_bit :: "Direction \<Rightarrow> u64" where
  "dir_bit SOUTH = 0x1"
| "dir_bit NORTH = 0x8000000000000000"
| "dir_bit SOUTHEAST = 0x1"
| "dir_bit NORTHEAST = 0x8000000000000000"
| "dir_bit WEST = 0x1"
| "dir_bit EAST = 0x8000000000000000"
| "dir_bit SOUTHWEST = 0x1"
| "dir_bit NORTHWEST = 0x8000000000000000"

definition gen_ray_attacks :: "u64 \<Rightarrow> Direction \<Rightarrow> Square \<Rightarrow> u64" where
  "gen_ray_attacks occ dir sq =
     (let attacks = ray_bitboards dir sq;
          blockers1 = attacks AND occ;
          blockers2 = blockers1 OR dir_bit dir;
          blockers3 = blockers2 AND (- blockers2 OR dir_mask dir);
          sq' = get_ms1b blockers3
      in attacks XOR ray_bitboards dir sq')"

definition slow_gen_bishop_attacks :: "Square \<Rightarrow> u64 \<Rightarrow> u64" where
  "slow_gen_bishop_attacks sq occ =
     (gen_ray_attacks occ NORTHEAST sq OR gen_ray_attacks occ SOUTHEAST sq OR
      gen_ray_attacks occ SOUTHWEST sq OR gen_ray_attacks occ NORTHWEST sq)"

definition slow_gen_rook_attacks :: "Square \<Rightarrow> u64 \<Rightarrow> u64" where
  "slow_gen_rook_attacks sq occ =
     (gen_ray_attacks occ NORTH sq OR gen_ray_attacks occ EAST sq OR
      gen_ray_attacks occ SOUTH sq OR gen_ray_attacks occ WEST sq)"

subsection \<open>Attack tables\<close>

text \<open>
  \<open>rook_magics\<close> and \<open>bishop_magics\<close>: per square a pointer into the attack table, a
  mask, a magic number and a shift. \<open>init_magics\<close> finds the numbers by trial with the
  random number generator, which is not among the sources, so the two arrays are the
  parameter \<open>T\<close> of every function that reads them. \<open>magic_ptr\<close> is the slice of the
  attack table the pointer addresses, as a function of the 64-bit index.
\<close>

record magic =
  magic_ptr :: "u64 \<Rightarrow> u64"
  magic_mask :: u64
  magic_num :: u64
  magic_shift :: nat

record attack_tables =
  rook_magics :: "Square \<Rightarrow> magic"
  bishop_magics :: "Square \<Rightarrow> magic"

definition get_rook_attacks :: "attack_tables \<Rightarrow> Square \<Rightarrow> u64 \<Rightarrow> u64" where
  "get_rook_attacks T sq occ =
     (let m = rook_magics T sq;
          occ1 = occ AND magic_mask m;
          occ2 = occ1 * magic_num m;
          occ3 = drop_bit (magic_shift m) occ2
      in magic_ptr m occ3)"

definition get_bishop_attacks :: "attack_tables \<Rightarrow> Square \<Rightarrow> u64 \<Rightarrow> u64" where
  "get_bishop_attacks T sq occ =
     (let m = bishop_magics T sq;
          occ1 = occ AND magic_mask m;
          occ2 = occ1 * magic_num m;
          occ3 = drop_bit (magic_shift m) occ2
      in magic_ptr m occ3)"

definition get_queen_attacks :: "attack_tables \<Rightarrow> Square \<Rightarrow> u64 \<Rightarrow> u64" where
  "get_queen_attacks T sq occ = (get_rook_attacks T sq occ OR get_bishop_attacks T sq occ)"

text \<open>
  A table in which every occupancy is its own index (mask of all squares, number 1,
  shift 0) and holds the slow attack set: the lookups then return what the slow
  generators compute.
\<close>

definition plain_tables :: attack_tables where
  "plain_tables =
     \<lparr>rook_magics = (\<lambda>sq. \<lparr>magic_ptr = (\<lambda>i. slow_gen_rook_attacks sq i),
                              magic_mask = - 1, magic_num = 1, magic_shift = 0\<rparr>),
      bishop_magics = (\<lambda>sq. \<lparr>magic_ptr = (\<lambda>i. slow_gen_bishop_attacks sq i),
                                magic_mask = - 1, magic_num = 1, magic_shift = 0\<rparr>)\<rparr>"

text \<open>The entries \<open>init_knight_attacks\<close> and \<open>init_king_attacks\<close> store for a square.\<close>

definition knight_attack_table :: "Square \<Rightarrow> u64" where
  "knight_attack_table sq =
     (let bb = push_bit sq 1 :: u64;
          l1 = drop_bit 1 bb AND 0x7f7f7f7f7f7f7f7f;
          l2 = drop_bit 2 bb AND 0x3f3f3f3f3f3f3f3f;
          r1 = push_bit 1 bb AND 0xfefefefefefefefe;
          r2 = push_bit 2 bb AND 0xfcfcfcfcfcfcfcfc;
          h1 = l1 OR r1;
          h2 = l2 OR r2
      in push_bit 16 h1 OR drop_bit 16 h1 OR push_bit 8 h2 OR drop_bit 8 h2)"

definition king_attack_table :: "Square \<Rightarrow> u64" where
  "king_attack_table i =
     (let bb = push_bit i 1 :: u64;
          t1 = move_east bb 1 OR move_west bb 1;
          bb1 = bb OR t1
      in t1 OR move_north bb1 1 OR move_south bb1 1)"

definition get_knight_attacks :: "Square \<Rightarrow> u64" where
  "get_knight_attacks sq = knight_attack_table sq"

definition get_king_attacks :: "Square \<Rightarrow> u64" where
  "get_king_attacks sq = king_attack_table sq"

definition get_single_push :: "Square \<Rightarrow> u64 \<Rightarrow> Color \<Rightarrow> u64" where
  "get_single_push sq occ c =
     (let bb = push_bit sq 1
      in if c = COLOR_WHITE then move_north bb 1 AND NOT occ
         else move_south bb 1 AND NOT occ)"

definition get_double_push :: "Square \<Rightarrow> u64 \<Rightarrow> Color \<Rightarrow> u64" where
  "get_double_push sq occ c =
     (if c = COLOR_WHITE
      then move_north (get_single_push sq occ c) 1 AND NOT occ AND rank_bitboards RANK_4
      else move_south (get_single_push sq occ c) 1 AND NOT occ AND rank_bitboards RANK_5)"

definition get_pawn_attacks :: "Square \<Rightarrow> Color \<Rightarrow> u64" where
  "get_pawn_attacks sq c =
     (let bb = push_bit sq 1
      in if c = COLOR_WHITE then move_northeast bb 1 OR move_northwest bb 1
         else move_southeast bb 1 OR move_southwest bb 1)"

subsection \<open>The generator\<close>

text \<open>
  The move list is a list; \<open>add_move\<close> appends (the growth of the buffer is not
  modelled). The functions take the list and return it extended.
\<close>

definition add_move :: "Move list \<Rightarrow> Move \<Rightarrow> Move list" where
  "add_move list move = list @ [move]"

definition add_pushes :: "Move list \<Rightarrow> Square \<Rightarrow> u64 \<Rightarrow> Color \<Rightarrow> Move list" where
  "add_pushes list from occ color =
     (let targets = get_single_push from occ color
      in if targets \<noteq> 0
         then let to = get_ls1b targets
              in if (color = COLOR_WHITE \<and> get_rank to = RANK_8) \<or>
                    (color = COLOR_BLACK \<and> get_rank to = RANK_1)
                 then fold (\<lambda>move_type l. add_move l (create_move from to move_type))
                        [MOVE_KNIGHT_PROMOTION ..< Suc MOVE_QUEEN_PROMOTION] list
                 else add_move list (create_move from to MOVE_OTHER)
         else list)"

definition add_double_pushes :: "Move list \<Rightarrow> Square \<Rightarrow> u64 \<Rightarrow> Color \<Rightarrow> Move list" where
  "add_double_pushes list from occ color =
     (let targets = get_double_push from occ color
      in if targets \<noteq> 0
         then add_move list (create_move from (get_ls1b targets) MOVE_DOUBLE_PAWN_PUSH)
         else list)"

definition add_pawn_attacks :: "Move list \<Rightarrow> Square \<Rightarrow> u64 \<Rightarrow> Color \<Rightarrow> Move list" where
  "add_pawn_attacks list from enemy_pieces color =
     (let targets = get_pawn_attacks from color AND enemy_pieces
      in fold (\<lambda>to l.
           if (color = COLOR_WHITE \<and> get_rank to = RANK_8) \<or>
              (color = COLOR_BLACK \<and> get_rank to = RANK_1)
           then fold (\<lambda>move_type l. add_move l (create_move from to move_type))
                  [MOVE_KNIGHT_PROMOTION_CAPTURE ..< Suc MOVE_QUEEN_PROMOTION_CAPTURE] l
           else add_move l (create_move from to MOVE_CAPTURE))
         (bb_squares targets) list)"

definition add_pawn_moves :: "Move list \<Rightarrow> position \<Rightarrow> Move list" where
  "add_pawn_moves list pos =
     (let color = get_side_to_move pos;
          piece = create_piece PIECE_TYPE_PAWN color;
          enemy_pieces = get_color_bitboard pos (lnot color);
          occ = enemy_pieces OR get_color_bitboard pos color;
          bb = get_piece_bitboard pos piece;
          list1 = (if enpassant_possible pos \<noteq> 0
                   then let sq = get_enpassant_square pos;
                            attackers = get_pawn_attacks sq (lnot color) AND bb
                        in fold (\<lambda>from l. add_move l (create_move from sq MOVE_EP_CAPTURE))
                             (bb_squares attackers) list
                   else list)
      in fold (\<lambda>from l.
                 add_pawn_attacks (add_double_pushes (add_pushes l from occ color) from occ color)
                   from enemy_pieces color)
           (bb_squares bb) list1)"

definition is_square_attacked :: "attack_tables \<Rightarrow> Square \<Rightarrow> Color \<Rightarrow> position \<Rightarrow> bool" where
  "is_square_attacked T sq by_side pos =
     (let occ = get_color_bitboard pos by_side OR get_color_bitboard pos (lnot by_side);
          pawns = get_piece_bitboard pos (create_piece PIECE_TYPE_PAWN by_side);
          knights = get_piece_bitboard pos (create_piece PIECE_TYPE_KNIGHT by_side);
          queens = get_piece_bitboard pos (create_piece PIECE_TYPE_QUEEN by_side);
          rooks_queens = get_piece_bitboard pos (create_piece PIECE_TYPE_ROOK by_side) OR queens;
          bishops_queens = queens OR get_piece_bitboard pos (create_piece PIECE_TYPE_BISHOP by_side);
          king = get_piece_bitboard pos (create_piece PIECE_TYPE_KING by_side)
      in if get_pawn_attacks sq (lnot by_side) AND pawns \<noteq> 0 then True
         else if get_knight_attacks sq AND knights \<noteq> 0 then True
         else if get_rook_attacks T sq occ AND rooks_queens \<noteq> 0 then True
         else if get_bishop_attacks T sq occ AND bishops_queens \<noteq> 0 then True
         else if get_king_attacks sq AND king \<noteq> 0 then True
         else False)"

definition add_king_castling :: "attack_tables \<Rightarrow> Move list \<Rightarrow> position \<Rightarrow> Move list" where
  "add_king_castling T list pos =
     (let color = get_side_to_move pos;
          from = get_king_square pos color
      in if has_castling_right pos color CASTLING_SIDE_KING
         then let k_castling_test_sq1 = (if color = COLOR_WHITE then F1 else F8);
                  k_castling_test_sq2 = (if color = COLOR_WHITE then G1 else G8)
              in if get_piece_at pos k_castling_test_sq1 = PIECE_NONE \<and>
                    get_piece_at pos k_castling_test_sq2 = PIECE_NONE \<and>
                    \<not> is_square_attacked T k_castling_test_sq1 (lnot color) pos \<and>
                    \<not> is_square_attacked T k_castling_test_sq2 (lnot color) pos \<and>
                    \<not> is_square_attacked T from (lnot color) pos
                 then let to = (if color = COLOR_WHITE then G1 else G8)
                      in add_move list (create_move from to MOVE_KING_CASTLE)
                 else list
         else list)"

definition add_queen_castling :: "attack_tables \<Rightarrow> Move list \<Rightarrow> position \<Rightarrow> Move list" where
  "add_queen_castling T list pos =
     (let color = get_side_to_move pos;
          from = get_king_square pos color
      in if has_castling_right pos color CASTLING_SIDE_QUEEN
         then let q_castling_test_sq1 = (if color = COLOR_WHITE then D1 else D8);
                  q_castling_test_sq2 = (if color = COLOR_WHITE then C1 else C8);
                  q_castling_test_sq3 = (if color = COLOR_WHITE then B1 else B8)
              in if get_piece_at pos q_castling_test_sq1 = PIECE_NONE \<and>
                    get_piece_at pos q_castling_test_sq2 = PIECE_NONE \<and>
                    get_piece_at pos q_castling_test_sq3 = PIECE_NONE \<and>
                    \<not> is_square_attacked T q_castling_test_sq1 (lnot color) pos \<and>
                    \<not> is_square_attacked T q_castling_test_sq2 (lnot color) pos \<and>
                    \<not> is_square_attacked T from (lnot color) pos
                 then let to = (if color = COLOR_WHITE then C1 else C8)
                      in add_move list (create_move from to MOVE_QUEEN_CASTLE)
                 else list
         else list)"

text \<open>The inner loop over the targets of a piece, shared by the king and the other pieces.\<close>

definition add_target_moves :: "Move list \<Rightarrow> position \<Rightarrow> Square \<Rightarrow> u64 \<Rightarrow> Move list" where
  "add_target_moves list pos from targets =
     fold (\<lambda>to l. add_move l
             (if get_piece_at pos to = PIECE_NONE then create_move from to MOVE_OTHER
              else create_move from to MOVE_CAPTURE))
       (bb_squares targets) list"

definition add_king_moves :: "attack_tables \<Rightarrow> Move list \<Rightarrow> position \<Rightarrow> Move list" where
  "add_king_moves T list pos =
     (let color = get_side_to_move pos;
          from = get_king_square pos color;
          occ = get_color_bitboard pos color OR get_color_bitboard pos (lnot color);
          friendly_pieces = occ AND get_color_bitboard pos color;
          list1 = add_king_castling T list pos;
          list2 = add_queen_castling T list1 pos;
          targets = get_king_attacks from AND NOT friendly_pieces
      in add_target_moves list2 pos from targets)"

text \<open>
  \<open>add_moves\<close>. For a piece type other than the six the inner \<open>switch\<close> calls \<open>abort()\<close>
  at the first piece found: the result is \<open>None\<close> then.
\<close>

definition piece_targets :: "attack_tables \<Rightarrow> PieceType \<Rightarrow> Square \<Rightarrow> u64 \<Rightarrow> u64 option" where
  "piece_targets T piece_type from occ =
     (if piece_type = PIECE_TYPE_KNIGHT then Some (get_knight_attacks from)
      else if piece_type = PIECE_TYPE_ROOK then Some (get_rook_attacks T from occ)
      else if piece_type = PIECE_TYPE_BISHOP then Some (get_bishop_attacks T from occ)
      else if piece_type = PIECE_TYPE_QUEEN then Some (get_queen_attacks T from occ)
      else None)"

definition add_moves :: "attack_tables \<Rightarrow> Move list \<Rightarrow> PieceType \<Rightarrow> position \<Rightarrow> Move list option" where
  "add_moves T list piece_type pos =
     (if piece_type = PIECE_TYPE_PAWN then Some (add_pawn_moves list pos)
      else if piece_type = PIECE_TYPE_KING then Some (add_king_moves T list pos)
      else let color = get_side_to_move pos;
               piece = create_piece piece_type color;
               occ = get_color_bitboard pos color OR get_color_bitboard pos (lnot color);
               friendly_pieces = occ AND get_color_bitboard pos color;
               bb = get_piece_bitboard pos piece
           in fold (\<lambda>from r.
                 case r of None \<Rightarrow> None
                 | Some l \<Rightarrow>
                     (case piece_targets T piece_type from occ of None \<Rightarrow> None
                      | Some targets \<Rightarrow>
                          Some (add_target_moves l pos from (targets AND NOT friendly_pieces))))
                (bb_squares bb) (Some list))"

text \<open>
  \<open>get_pseudo_legal_moves\<close> returns the pointer to the moves, \<open>NULL\<close> (here \<open>None\<close>) when
  there is none, and stores the number of moves in \<open>*len\<close>. The outer \<open>option\<close> is the
  \<open>abort()\<close> of \<open>add_moves\<close>.
\<close>

definition generate_moves :: "attack_tables \<Rightarrow> position \<Rightarrow> Move list option" where
  "generate_moves T pos =
     Option.bind (add_moves T [] PIECE_TYPE_PAWN pos) (\<lambda>l1.
     Option.bind (add_moves T l1 PIECE_TYPE_KNIGHT pos) (\<lambda>l2.
     Option.bind (add_moves T l2 PIECE_TYPE_ROOK pos) (\<lambda>l3.
     Option.bind (add_moves T l3 PIECE_TYPE_BISHOP pos) (\<lambda>l4.
     Option.bind (add_moves T l4 PIECE_TYPE_QUEEN pos) (\<lambda>l5.
     add_moves T l5 PIECE_TYPE_KING pos)))))"

definition get_pseudo_legal_moves :: "attack_tables \<Rightarrow> position \<Rightarrow> (Move list option \<times> nat) option" where
  "get_pseudo_legal_moves T pos =
     (case generate_moves T pos of None \<Rightarrow> None
      | Some list \<Rightarrow>
          let len = length list
          in if len = 0 then Some (None, len) else Some (Some list, len))"

section \<open>Search constants and transposition-table score adjustment (search.c)\<close>

definition MAX_DEPTH :: int where
  "MAX_DEPTH = 128"

definition MAX_PLY :: int where
  "MAX_PLY = 2 * MAX_DEPTH"

text \<open>\<open>INF\<close> of the source (renamed: the name is reserved syntax) is \<open>SHRT_MAX\<close>.\<close>

definition INF_score :: int where
  "INF_score = 32767"

definition score_to_ttscore :: "int \<Rightarrow> int \<Rightarrow> int" where
  "score_to_ttscore score ply =
     (if score \<ge> INF_score - MAX_PLY then score + ply
      else if score \<le> - INF_score + MAX_PLY then score - ply
      else score)"

definition ttscore_to_score :: "int \<Rightarrow> int \<Rightarrow> int" where
  "ttscore_to_score score ply =
     (if score \<ge> INF_score - MAX_PLY then score - ply
      else if score \<le> INF_score + MAX_PLY then score + ply
      else score)"


section \<open>Concrete positions\<close>

text \<open>
  Positions as \<open>create_pos\<close> builds them from a FEN string: one frame on the stack,
  no captured piece.
\<close>

text \<open>\<^verbatim>\<open>rnbqkbnr/pppppppp/8/8/8/8/PPPPPPPP/RNBQKBNR w KQkq - 0 1\<close>\<close>

definition pos_start :: position where
  "pos_start = \<lparr>
     irr_states = [\<lparr>castling_rights_and_enpassant = 0x0f, halfmove_clock = 0, captured_piece = 12\<rparr>],
     irr_state_idx = 0, side_to_move = 0, fullmove_counter = 1,
     color_bb = [0x000000000000ffff, 0xffff000000000000],
     type_bb = [0x00ff00000000ff00, 0x4200000000000042, 0x2400000000000024, 0x8100000000000081, 0x0800000000000008, 0x1000000000000010],
     board = [6, 2, 4, 8, 10, 4, 2, 6,
              0, 0, 0, 0, 0, 0, 0, 0,
              12, 12, 12, 12, 12, 12, 12, 12,
              12, 12, 12, 12, 12, 12, 12, 12,
              12, 12, 12, 12, 12, 12, 12, 12,
              12, 12, 12, 12, 12, 12, 12, 12,
              1, 1, 1, 1, 1, 1, 1, 1,
              7, 3, 5, 9, 11, 5, 3, 7]\<rparr>"


text \<open>\<^verbatim>\<open>rnbqkbnr/pppppppp/8/8/8/8/PPPPPPPP/RNBQKBNR w kq - 0 1\<close>\<close>

definition pos_start_kq :: position where
  "pos_start_kq = \<lparr>
     irr_states = [\<lparr>castling_rights_and_enpassant = 0x0c, halfmove_clock = 0, captured_piece = 12\<rparr>],
     irr_state_idx = 0, side_to_move = 0, fullmove_counter = 1,
     color_bb = [0x000000000000ffff, 0xffff000000000000],
     type_bb = [0x00ff00000000ff00, 0x4200000000000042, 0x2400000000000024, 0x8100000000000081, 0x0800000000000008, 0x1000000000000010],
     board = [6, 2, 4, 8, 10, 4, 2, 6,
              0, 0, 0, 0, 0, 0, 0, 0,
              12, 12, 12, 12, 12, 12, 12, 12,
              12, 12, 12, 12, 12, 12, 12, 12,
              12, 12, 12, 12, 12, 12, 12, 12,
              12, 12, 12, 12, 12, 12, 12, 12,
              1, 1, 1, 1, 1, 1, 1, 1,
              7, 3, 5, 9, 11, 5, 3, 7]\<rparr>"


text \<open>\<^verbatim>\<open>rnbqkbnr/pppppppp/8/8/4P3/8/PPPP1PPP/RNBQKBNR b KQkq e3 0 1\<close>\<close>

definition pos_e4 :: position where
  "pos_e4 = \<lparr>
     irr_states = [\<lparr>castling_rights_and_enpassant = 0xcf, halfmove_clock = 0, captured_piece = 12\<rparr>],
     irr_state_idx = 0, side_to_move = 1, fullmove_counter = 1,
     color_bb = [0x000000001000efff, 0xffff000000000000],
     type_bb = [0x00ff00001000ef00, 0x4200000000000042, 0x2400000000000024, 0x8100000000000081, 0x0800000000000008, 0x1000000000000010],
     board = [6, 2, 4, 8, 10, 4, 2, 6,
              0, 0, 0, 0, 12, 0, 0, 0,
              12, 12, 12, 12, 12, 12, 12, 12,
              12, 12, 12, 12, 0, 12, 12, 12,
              12, 12, 12, 12, 12, 12, 12, 12,
              12, 12, 12, 12, 12, 12, 12, 12,
              1, 1, 1, 1, 1, 1, 1, 1,
              7, 3, 5, 9, 11, 5, 3, 7]\<rparr>"


text \<open>\<^verbatim>\<open>rnbqkbnr/pppppppp/8/8/4P3/8/PPPP1PPP/RNBQKBNR b KQkq e3 7 9\<close>\<close>

definition pos_e4_later :: position where
  "pos_e4_later = \<lparr>
     irr_states = [\<lparr>castling_rights_and_enpassant = 0xcf, halfmove_clock = 7, captured_piece = 12\<rparr>],
     irr_state_idx = 0, side_to_move = 1, fullmove_counter = 9,
     color_bb = [0x000000001000efff, 0xffff000000000000],
     type_bb = [0x00ff00001000ef00, 0x4200000000000042, 0x2400000000000024, 0x8100000000000081, 0x0800000000000008, 0x1000000000000010],
     board = [6, 2, 4, 8, 10, 4, 2, 6,
              0, 0, 0, 0, 12, 0, 0, 0,
              12, 12, 12, 12, 12, 12, 12, 12,
              12, 12, 12, 12, 0, 12, 12, 12,
              12, 12, 12, 12, 12, 12, 12, 12,
              12, 12, 12, 12, 12, 12, 12, 12,
              1, 1, 1, 1, 1, 1, 1, 1,
              7, 3, 5, 9, 11, 5, 3, 7]\<rparr>"


section \<open>Reference notions from the specification\<close>

text \<open>
  The Chebyshev distance between two squares, the squares of the pawns of a side and the
  distance from the king of a side to its nearest pawn, in the words of the specification.
\<close>

definition chebyshev_distance :: "Square \<Rightarrow> Square \<Rightarrow> int" where
  "chebyshev_distance sq1 sq2 =
     max \<bar>int (get_file sq1) - int (get_file sq2)\<bar> \<bar>int (get_rank sq1) - int (get_rank sq2)\<bar>"

definition pawn_squares :: "position \<Rightarrow> Color \<Rightarrow> Square list" where
  "pawn_squares pos color =
     filter (bit (get_piece_bitboard pos (create_piece PIECE_TYPE_PAWN color) AND
                  get_color_bitboard pos color)) [0..<64]"

definition nearest_pawn_distance :: "position \<Rightarrow> Color \<Rightarrow> int" where
  "nearest_pawn_distance pos color =
     Min (set (map (chebyshev_distance (get_king_square pos color)) (pawn_squares pos color)))"

text \<open>
  A side has bishops on both colours of the checkerboard; the colour of a square is that
  of \<open>get_square_color\<close>.
\<close>

definition bishops_on_both_colours :: "position \<Rightarrow> Color \<Rightarrow> bool" where
  "bishops_on_both_colours pos color =
     (let bishops = filter (bit (get_piece_bitboard pos (create_piece PIECE_TYPE_BISHOP color)))
                      [0..<64]
      in list_ex (\<lambda>sq. get_square_color sq = 1) bishops \<and>
         list_ex (\<lambda>sq. get_square_color sq = 0) bishops)"

text \<open>The entry that one pass of \<open>init_sq_tables\<close> stores.\<close>

definition sq_val :: "PieceType \<Rightarrow> Square \<Rightarrow> score" where
  "sq_val pt sq = \<lparr>mg = mg_tables pt ! sq, eg = eg_tables pt ! sq\<rparr>"

text \<open>\<^verbatim>\<open>4k3/8/8/8/8/8/8/4K3 w - - 0 1\<close>\<close>

definition pos_kings :: position where
  "pos_kings = \<lparr>
     irr_states = [\<lparr>castling_rights_and_enpassant = 0x00, halfmove_clock = 0, captured_piece = 12\<rparr>],
     irr_state_idx = 0, side_to_move = 0, fullmove_counter = 1,
     color_bb = [0x0000000000000010, 0x1000000000000000],
     type_bb = [0x0000000000000000, 0x0000000000000000, 0x0000000000000000, 0x0000000000000000, 0x0000000000000000, 0x1000000000000010],
     board = [12, 12, 12, 12, 10, 12, 12, 12,
              12, 12, 12, 12, 12, 12, 12, 12,
              12, 12, 12, 12, 12, 12, 12, 12,
              12, 12, 12, 12, 12, 12, 12, 12,
              12, 12, 12, 12, 12, 12, 12, 12,
              12, 12, 12, 12, 12, 12, 12, 12,
              12, 12, 12, 12, 12, 12, 12, 12,
              12, 12, 12, 12, 11, 12, 12, 12]\<rparr>"


text \<open>\<^verbatim>\<open>4k3/8/8/8/8/8/1B6/B3K3 w - - 0 1\<close>\<close>

definition pos_bishops_dark :: position where
  "pos_bishops_dark = \<lparr>
     irr_states = [\<lparr>castling_rights_and_enpassant = 0x00, halfmove_clock = 0, captured_piece = 12\<rparr>],
     irr_state_idx = 0, side_to_move = 0, fullmove_counter = 1,
     color_bb = [0x0000000000000211, 0x1000000000000000],
     type_bb = [0x0000000000000000, 0x0000000000000000, 0x0000000000000201, 0x0000000000000000, 0x0000000000000000, 0x1000000000000010],
     board = [4, 12, 12, 12, 10, 12, 12, 12,
              12, 4, 12, 12, 12, 12, 12, 12,
              12, 12, 12, 12, 12, 12, 12, 12,
              12, 12, 12, 12, 12, 12, 12, 12,
              12, 12, 12, 12, 12, 12, 12, 12,
              12, 12, 12, 12, 12, 12, 12, 12,
              12, 12, 12, 12, 12, 12, 12, 12,
              12, 12, 12, 12, 11, 12, 12, 12]\<rparr>"


text \<open>\<^verbatim>\<open>4k3/8/8/8/8/8/B7/B3K3 w - - 0 1\<close>\<close>

definition pos_bishops_file :: position where
  "pos_bishops_file = \<lparr>
     irr_states = [\<lparr>castling_rights_and_enpassant = 0x00, halfmove_clock = 0, captured_piece = 12\<rparr>],
     irr_state_idx = 0, side_to_move = 0, fullmove_counter = 1,
     color_bb = [0x0000000000000111, 0x1000000000000000],
     type_bb = [0x0000000000000000, 0x0000000000000000, 0x0000000000000101, 0x0000000000000000, 0x0000000000000000, 0x1000000000000010],
     board = [4, 12, 12, 12, 10, 12, 12, 12,
              4, 12, 12, 12, 12, 12, 12, 12,
              12, 12, 12, 12, 12, 12, 12, 12,
              12, 12, 12, 12, 12, 12, 12, 12,
              12, 12, 12, 12, 12, 12, 12, 12,
              12, 12, 12, 12, 12, 12, 12, 12,
              12, 12, 12, 12, 12, 12, 12, 12,
              12, 12, 12, 12, 11, 12, 12, 12]\<rparr>"


text \<open>\<^verbatim>\<open>4k3/4p3/8/8/8/8/7P/K7 w - - 0 1\<close>\<close>

definition pos_far_pawn :: position where
  "pos_far_pawn = \<lparr>
     irr_states = [\<lparr>castling_rights_and_enpassant = 0x00, halfmove_clock = 0, captured_piece = 12\<rparr>],
     irr_state_idx = 0, side_to_move = 0, fullmove_counter = 1,
     color_bb = [0x0000000000008001, 0x1010000000000000],
     type_bb = [0x0010000000008000, 0x0000000000000000, 0x0000000000000000, 0x0000000000000000, 0x0000000000000000, 0x1000000000000001],
     board = [10, 12, 12, 12, 12, 12, 12, 12,
              12, 12, 12, 12, 12, 12, 12, 0,
              12, 12, 12, 12, 12, 12, 12, 12,
              12, 12, 12, 12, 12, 12, 12, 12,
              12, 12, 12, 12, 12, 12, 12, 12,
              12, 12, 12, 12, 12, 12, 12, 12,
              12, 12, 12, 12, 1, 12, 12, 12,
              12, 12, 12, 12, 11, 12, 12, 12]\<rparr>"

text \<open>
  The conditions under which a castling move is emitted, in the words of the
  specification: the side to move has the right, the squares between the king and the
  rook (on their home squares) are empty, and the king's square and the squares the king
  passes over and arrives at are not attacked by the other side. The moves that are then
  emitted.
\<close>

definition king_castle_ok :: "attack_tables \<Rightarrow> position \<Rightarrow> bool" where
  "king_castle_ok T pos =
     (let color = get_side_to_move pos;
          f = (if color = COLOR_WHITE then F1 else F8);
          g = (if color = COLOR_WHITE then G1 else G8)
      in has_castling_right pos color CASTLING_SIDE_KING \<and>
         get_piece_at pos f = PIECE_NONE \<and> get_piece_at pos g = PIECE_NONE \<and>
         \<not> is_square_attacked T (get_king_square pos color) (lnot color) pos \<and>
         \<not> is_square_attacked T f (lnot color) pos \<and>
         \<not> is_square_attacked T g (lnot color) pos)"

definition queen_castle_ok :: "attack_tables \<Rightarrow> position \<Rightarrow> bool" where
  "queen_castle_ok T pos =
     (let color = get_side_to_move pos;
          d = (if color = COLOR_WHITE then D1 else D8);
          c = (if color = COLOR_WHITE then C1 else C8);
          b = (if color = COLOR_WHITE then B1 else B8)
      in has_castling_right pos color CASTLING_SIDE_QUEEN \<and>
         get_piece_at pos d = PIECE_NONE \<and> get_piece_at pos c = PIECE_NONE \<and>
         get_piece_at pos b = PIECE_NONE \<and>
         \<not> is_square_attacked T (get_king_square pos color) (lnot color) pos \<and>
         \<not> is_square_attacked T d (lnot color) pos \<and>
         \<not> is_square_attacked T c (lnot color) pos)"

definition king_castle_move :: "position \<Rightarrow> Move" where
  "king_castle_move pos =
     create_move (get_king_square pos (get_side_to_move pos))
       (if get_side_to_move pos = COLOR_WHITE then G1 else G8) MOVE_KING_CASTLE"

definition queen_castle_move :: "position \<Rightarrow> Move" where
  "queen_castle_move pos =
     create_move (get_king_square pos (get_side_to_move pos))
       (if get_side_to_move pos = COLOR_WHITE then C1 else C8) MOVE_QUEEN_CASTLE"


text \<open>\<^verbatim>\<open>6PK/6PP/8/8/8/8/8/k7 w - - 0 1\<close>\<close>

definition pos_boxed :: position where
  "pos_boxed = \<lparr>
     irr_states = [\<lparr>castling_rights_and_enpassant = 0x00, halfmove_clock = 0, captured_piece = 12\<rparr>],
     irr_state_idx = 0, side_to_move = 0, fullmove_counter = 1,
     color_bb = [0xc0c0000000000000, 0x0000000000000001],
     type_bb = [0x40c0000000000000, 0x0000000000000000, 0x0000000000000000, 0x0000000000000000, 0x0000000000000000, 0x8000000000000001],
     board = [11, 12, 12, 12, 12, 12, 12, 12,
              12, 12, 12, 12, 12, 12, 12, 12,
              12, 12, 12, 12, 12, 12, 12, 12,
              12, 12, 12, 12, 12, 12, 12, 12,
              12, 12, 12, 12, 12, 12, 12, 12,
              12, 12, 12, 12, 12, 12, 12, 12,
              12, 12, 12, 12, 12, 12, 0, 0,
              12, 12, 12, 12, 12, 12, 0, 10]\<rparr>"

(*THEOREMS*)

section \<open>Auxiliary facts\<close>

lemmas enum_defs =
  COLOR_WHITE_def COLOR_BLACK_def CASTLING_SIDE_QUEEN_def CASTLING_SIDE_KING_def
  PIECE_TYPE_PAWN_def PIECE_TYPE_KNIGHT_def PIECE_TYPE_BISHOP_def PIECE_TYPE_ROOK_def
  PIECE_TYPE_QUEEN_def PIECE_TYPE_KING_def

lemma upt_0_2: "[0..<2] = [0, 1]"
  by (simp add: upt_rec)

lemma upt_0_6: "[0..<6] = [0, 1, 2, 3, 4, 5]"
  by (simp add: upt_rec)

lemma bit_128_int: "bit (128 :: int) n = (n = 7)"
proof -
  have "bit (2 ^ 7 :: int) n = (n = 7)"
    by (simp only: bit_exp_iff) auto
  then show ?thesis by simp
qed

lemma and_0x80: "(x :: u8) AND 0x80 = (if bit x 7 then 0x80 else 0)"
  by (rule bit_word_eqI) (auto simp add: bit_and_iff bit_128_int)

lemma enpassant_possible_eq_iff:
  "(enpassant_possible p = enpassant_possible q) =
   ((enpassant_possible p \<noteq> 0) = (enpassant_possible q \<noteq> 0))"
  by (simp add: enpassant_possible_def and_0x80)

section \<open>Score adjustment for the transposition table\<close>

text \<open>
  Stored scores below the upper mate window are not returned unchanged: the second test of
  \<open>ttscore_to_score\<close> compares with \<open>INF + MAX_PLY\<close>, which every such score passes.
\<close>

lemma ttscore_to_score_below_window:
  "score < INF_score - MAX_PLY \<Longrightarrow> ttscore_to_score score ply = score + ply"
  by (simp add: ttscore_to_score_def INF_score_def MAX_PLY_def MAX_DEPTH_def)

lemma ttscore_roundtrip_upper_window:
  "score \<ge> INF_score - MAX_PLY \<Longrightarrow> 0 \<le> ply \<Longrightarrow>
   ttscore_to_score (score_to_ttscore score ply) ply = score"
  by (simp add: ttscore_to_score_def score_to_ttscore_def)

text \<open>
  C2. The claim: \<open>ttscore_to_score (score_to_ttscore score ply) ply = score\<close> for every score
  and every ply from 0 to \<open>MAX_PLY\<close>. The code at score 0 and ply 1: the stored score is 0
  and the probe returns 1.
\<close>

theorem ttscore_roundtrip_at_0_1:
  "score_to_ttscore 0 1 = 0 \<and> ttscore_to_score (score_to_ttscore 0 1) 1 = 1"
  by (simp add: ttscore_to_score_def score_to_ttscore_def INF_score_def MAX_PLY_def MAX_DEPTH_def)

section \<open>The Zobrist hash\<close>

lemma hash_rights_black_only:
  "hash_rights pos =
     push_bit 2 (push_bit 1 (of_bool (has_castling_right pos COLOR_BLACK CASTLING_SIDE_KING)) OR
                 of_bool (has_castling_right pos COLOR_BLACK CASTLING_SIDE_QUEEN))"
  by (simp add: hash_rights_def COLOR_WHITE_def COLOR_BLACK_def upt_rec Let_def)

text \<open>
  C3. The claim: the castling key of \<open>hash_pos\<close> is indexed by the full four-bit set of
  rights, so that positions differing only in White's rights hash differently. The code on
  the initial position with all four rights and with Black's rights only: the four-bit
  sets are 15 and 12, the index used is 12 for both, and the hashes are equal whatever
  the table of keys.
\<close>

theorem hash_pos_ignores_white_rights:
  "castling_rights_and_enpassant (cur_irr pos_start) AND 0xf = 15 \<and>
   castling_rights_and_enpassant (cur_irr pos_start_kq) AND 0xf = 12 \<and>
   hash_rights pos_start = 12 \<and> hash_rights pos_start_kq = 12 \<and>
   hash_pos z pos_start = hash_pos z pos_start_kq"
proof -
  have r1: "hash_rights pos_start = 12"
    by (simp add: hash_rights_black_only has_castling_right_def cur_irr_def pos_start_def
        COLOR_BLACK_def CASTLING_SIDE_KING_def CASTLING_SIDE_QUEEN_def)
  have r2: "hash_rights pos_start_kq = 12"
    by (simp add: hash_rights_black_only has_castling_right_def cur_irr_def pos_start_kq_def
        COLOR_BLACK_def CASTLING_SIDE_KING_def CASTLING_SIDE_QUEEN_def)
  have h: "hash_pos z pos_start = hash_pos z pos_start_kq"
    unfolding hash_pos_def r1 r2
    by (simp add: get_piece_at_def enpassant_possible_def get_enpassant_square_def cur_irr_def
        get_side_to_move_def pos_start_def pos_start_kq_def)
  show ?thesis
    using r1 r2 h by (simp add: cur_irr_def pos_start_def pos_start_kq_def)
qed

section \<open>Position equality\<close>

lemma cur_irr_set_halfmove_clock:
  "castling_rights_and_enpassant (cur_irr (set_halfmove_clock p v)) =
   castling_rights_and_enpassant (cur_irr p)"
  by (cases "irr_state_idx p < length (irr_states p)")
     (simp_all add: cur_irr_def set_halfmove_clock_def list_update_beyond)

lemma has_castling_right_set_counters:
  "has_castling_right (set_fullmove_counter (set_halfmove_clock p h) f) c s =
   has_castling_right p c s"
  using cur_irr_set_halfmove_clock [of p h]
  by (simp add: has_castling_right_def set_fullmove_counter_def cur_irr_def)

lemma enpassant_possible_set_counters:
  "enpassant_possible (set_fullmove_counter (set_halfmove_clock p h) f) = enpassant_possible p"
  using cur_irr_set_halfmove_clock [of p h]
  by (simp add: enpassant_possible_def set_fullmove_counter_def cur_irr_def)

lemma get_enpassant_square_set_counters:
  "get_enpassant_square (set_fullmove_counter (set_halfmove_clock p h) f) =
   get_enpassant_square p"
  using cur_irr_set_halfmove_clock [of p h]
  by (simp add: get_enpassant_square_def set_fullmove_counter_def cur_irr_def
      set_halfmove_clock_def)

lemma fields_set_counters:
  "get_side_to_move (set_fullmove_counter (set_halfmove_clock p h) f) = get_side_to_move p"
  "color_bb (set_fullmove_counter (set_halfmove_clock p h) f) = color_bb p"
  "type_bb (set_fullmove_counter (set_halfmove_clock p h) f) = type_bb p"
  by (simp_all add: get_side_to_move_def set_fullmove_counter_def set_halfmove_clock_def)

lemma pos_equal_set_counters:
  "pos_equal (set_fullmove_counter (set_halfmove_clock p1 h) f) p2 = pos_equal p1 p2"
  unfolding pos_equal_def has_castling_right_set_counters enpassant_possible_set_counters
    get_enpassant_square_set_counters fields_set_counters ..

text \<open>
  C10. \<open>pos_equal\<close> holds exactly when the two positions agree on the side to move, on
  each of the four castling rights, on whether an en-passant square is available (and on
  the square when both have one), on the two colour bitboards and on the six piece-type
  bitboards; writing the halfmove clock and the fullmove counter of a position does not
  change the result.
\<close>

theorem pos_equal_iff:
  "(pos_equal p1 p2 \<longleftrightarrow>
     get_side_to_move p1 = get_side_to_move p2 \<and>
     (\<forall>c \<in> {COLOR_WHITE, COLOR_BLACK}. \<forall>s \<in> {CASTLING_SIDE_QUEEN, CASTLING_SIDE_KING}.
         has_castling_right p1 c s = has_castling_right p2 c s) \<and>
     ((enpassant_possible p1 \<noteq> 0) = (enpassant_possible p2 \<noteq> 0)) \<and>
     (enpassant_possible p1 \<noteq> 0 \<and> enpassant_possible p2 \<noteq> 0 \<longrightarrow>
         get_enpassant_square p1 = get_enpassant_square p2) \<and>
     color_bb p1 ! COLOR_WHITE = color_bb p2 ! COLOR_WHITE \<and>
     color_bb p1 ! COLOR_BLACK = color_bb p2 ! COLOR_BLACK \<and>
     (\<forall>pt \<in> {PIECE_TYPE_PAWN, PIECE_TYPE_KNIGHT, PIECE_TYPE_BISHOP, PIECE_TYPE_ROOK,
               PIECE_TYPE_QUEEN, PIECE_TYPE_KING}. type_bb p1 ! pt = type_bb p2 ! pt)) \<and>
   pos_equal (set_fullmove_counter (set_halfmove_clock p1 h) f) p2 = pos_equal p1 p2"
proof -
  have "pos_equal p1 p2 \<longleftrightarrow>
     get_side_to_move p1 = get_side_to_move p2 \<and>
     (\<forall>c \<in> {COLOR_WHITE, COLOR_BLACK}. \<forall>s \<in> {CASTLING_SIDE_QUEEN, CASTLING_SIDE_KING}.
         has_castling_right p1 c s = has_castling_right p2 c s) \<and>
     ((enpassant_possible p1 \<noteq> 0) = (enpassant_possible p2 \<noteq> 0)) \<and>
     (enpassant_possible p1 \<noteq> 0 \<and> enpassant_possible p2 \<noteq> 0 \<longrightarrow>
         get_enpassant_square p1 = get_enpassant_square p2) \<and>
     color_bb p1 ! COLOR_WHITE = color_bb p2 ! COLOR_WHITE \<and>
     color_bb p1 ! COLOR_BLACK = color_bb p2 ! COLOR_BLACK \<and>
     (\<forall>pt \<in> {PIECE_TYPE_PAWN, PIECE_TYPE_KNIGHT, PIECE_TYPE_BISHOP, PIECE_TYPE_ROOK,
               PIECE_TYPE_QUEEN, PIECE_TYPE_KING}. type_bb p1 ! pt = type_bb p2 ! pt)"
    unfolding pos_equal_def enpassant_possible_eq_iff [of p1 p2]
    by (simp add: enum_defs upt_0_6 upt_0_2)
  then show ?thesis
    by (simp only: pos_equal_set_counters)
qed

text \<open>
  The position after 1. e4 and the same position with other counters: both have the
  en-passant square e3, they agree on everything the theorem lists, and \<open>pos_equal\<close>
  holds.
\<close>

theorem pos_equal_iff_witness:
  "enpassant_possible pos_e4 \<noteq> 0 \<and> enpassant_possible pos_e4_later \<noteq> 0 \<and>
   get_enpassant_square pos_e4 = get_enpassant_square pos_e4_later \<and>
   halfmove_clock (cur_irr pos_e4) \<noteq> halfmove_clock (cur_irr pos_e4_later) \<and>
   fullmove_counter pos_e4 \<noteq> fullmove_counter pos_e4_later \<and>
   pos_equal pos_e4 pos_e4_later"
proof -
  have ep: "enpassant_possible pos_e4 \<noteq> 0" "enpassant_possible pos_e4_later \<noteq> 0"
    by (simp_all add: enpassant_possible_def cur_irr_def pos_e4_def pos_e4_later_def)
  have sq: "get_enpassant_square pos_e4 = get_enpassant_square pos_e4_later"
    by (simp add: get_enpassant_square_def cur_irr_def pos_e4_def pos_e4_later_def)
  have rest: "get_side_to_move pos_e4 = get_side_to_move pos_e4_later"
    "\<And>c s. has_castling_right pos_e4 c s = has_castling_right pos_e4_later c s"
    "color_bb pos_e4 = color_bb pos_e4_later" "type_bb pos_e4 = type_bb pos_e4_later"
    by (simp_all add: get_side_to_move_def has_castling_right_def cur_irr_def
        pos_e4_def pos_e4_later_def)
  have "pos_equal pos_e4 pos_e4_later"
    using pos_equal_iff [of pos_e4 pos_e4_later] ep sq rest by simp
  then show ?thesis
    using ep sq by (simp add: cur_irr_def pos_e4_def pos_e4_later_def)
qed

section \<open>Evaluation: the tables and the loops\<close>

lemma xor56_invol: "((x::nat) XOR 56) XOR 56 = x"
  by (simp add: xor.assoc)

lemma xor56_eq_iff: "((x::nat) XOR 56 = s) = (x = s XOR 56)"
  using xor56_invol by metis

lemma xor56_less: "((s::nat) XOR 56 < 64) = (s < 64)"
proof -
  have a: "(n < 64) = (drop_bit 6 n = 0)" for n :: nat
    by (simp add: drop_bit_eq_div div_eq_0_iff)
  have "drop_bit 6 (s XOR 56) = drop_bit 6 s XOR drop_bit 6 (56::nat)"
    by (simp add: drop_bit_xor)
  also have "drop_bit 6 (56::nat) = 0" by (simp add: drop_bit_eq_div)
  finally show ?thesis by (simp add: a)
qed


lemma step_apply: "init_sq_tables_step pt x t (c, pt', s) =
   (if c = COLOR_BLACK \<and> pt' = pt \<and> s = x then sq_val pt x
    else if c = COLOR_WHITE \<and> pt' = pt \<and> s = x XOR 56 then sq_val pt x
    else t (c, pt', s))"
  by (simp add: init_sq_tables_step_def sq_val_def COLOR_WHITE_def COLOR_BLACK_def)

lemma inner: "fold (init_sq_tables_step pt) sqs t (c, pt', s) =
   (if pt' = pt \<and> c = COLOR_WHITE \<and> (s XOR 56) \<in> set sqs then sq_val pt (s XOR 56)
    else if pt' = pt \<and> c = COLOR_BLACK \<and> s \<in> set sqs then sq_val pt s
    else t (c, pt', s))"
proof (induction sqs arbitrary: t)
  case Nil
  then show ?case by simp
next
  case (Cons x xs)
  have "fold (init_sq_tables_step pt) (x # xs) t (c, pt', s) =
        fold (init_sq_tables_step pt) xs (init_sq_tables_step pt x t) (c, pt', s)"
    by simp
  also have "\<dots> = (if pt' = pt \<and> c = COLOR_WHITE \<and> (s XOR 56) \<in> set xs then sq_val pt (s XOR 56)
    else if pt' = pt \<and> c = COLOR_BLACK \<and> s \<in> set xs then sq_val pt s
    else init_sq_tables_step pt x t (c, pt', s))"
    by (rule Cons.IH)
  also have "\<dots> = (if pt' = pt \<and> c = COLOR_WHITE \<and> (s XOR 56) \<in> set (x # xs) then sq_val pt (s XOR 56)
    else if pt' = pt \<and> c = COLOR_BLACK \<and> s \<in> set (x # xs) then sq_val pt s
    else t (c, pt', s))"
    using xor56_invol [of x] xor56_eq_iff [of s x]
    by (auto simp add: step_apply COLOR_WHITE_def COLOR_BLACK_def)
  finally show ?case .
qed

lemma outer: "fold (\<lambda>pt. fold (init_sq_tables_step pt) sqs) pts t (c, pt', s) =
   (if pt' \<in> set pts \<and> c = COLOR_WHITE \<and> (s XOR 56) \<in> set sqs then sq_val pt' (s XOR 56)
    else if pt' \<in> set pts \<and> c = COLOR_BLACK \<and> s \<in> set sqs then sq_val pt' s
    else t (c, pt', s))"
proof (induction pts arbitrary: t)
  case Nil
  then show ?case by simp
next
  case (Cons x xs)
  have "fold (\<lambda>pt. fold (init_sq_tables_step pt) sqs) (x # xs) t (c, pt', s) =
        fold (\<lambda>pt. fold (init_sq_tables_step pt) sqs) xs (fold (init_sq_tables_step x) sqs t) (c, pt', s)"
    by simp
  also have "\<dots> = (if pt' \<in> set xs \<and> c = COLOR_WHITE \<and> (s XOR 56) \<in> set sqs then sq_val pt' (s XOR 56)
    else if pt' \<in> set xs \<and> c = COLOR_BLACK \<and> s \<in> set sqs then sq_val pt' s
    else fold (init_sq_tables_step x) sqs t (c, pt', s))"
    by (rule Cons.IH)
  also have "\<dots> = (if pt' \<in> set (x # xs) \<and> c = COLOR_WHITE \<and> (s XOR 56) \<in> set sqs then sq_val pt' (s XOR 56)
    else if pt' \<in> set (x # xs) \<and> c = COLOR_BLACK \<and> s \<in> set sqs then sq_val pt' s
    else t (c, pt', s))"
    by (auto simp add: inner COLOR_WHITE_def COLOR_BLACK_def)
  finally show ?case .
qed

lemma init_sq_tables_lookup [code]: "init_sq_tables (c, pt, sq) =
   (if pt < 6 \<and> sq < 64 \<and> c = COLOR_WHITE then \<lparr>mg = mg_tables pt ! (sq XOR 56), eg = eg_tables pt ! (sq XOR 56)\<rparr>
    else if pt < 6 \<and> sq < 64 \<and> c = COLOR_BLACK then \<lparr>mg = mg_tables pt ! sq, eg = eg_tables pt ! sq\<rparr>
    else \<lparr>mg = 0, eg = 0\<rparr>)"
  unfolding init_sq_tables_def outer
  by (simp add: sq_val_def xor56_less A1_def H8_def PIECE_TYPE_PAWN_def PIECE_TYPE_KING_def)


lemma set_bb_squares: "set (bb_squares bb) = set (filter (bit bb) [0..<64])"
proof (induction bb rule: bb_squares.induct)
  case (1 bb)
  show ?case
  proof (cases "bb = 0")
    case True
    then show ?thesis by simp
  next
    case False
    let ?l = "get_ls1b bb"
    have l: "?l < 64" "bit bb ?l" using get_ls1b_bit [OF False] by simp_all
    have ih: "set (bb_squares (unset_bit ?l bb)) = set (filter (bit (unset_bit ?l bb)) [0..<64])"
      using "1.IH" [OF False] by (simp add: unset_ls1b_def)
    have "bb_squares bb = ?l # bb_squares (unset_bit ?l bb)"
      using False by (subst bb_squares.simps) (simp add: unset_ls1b_def)
    then have "set (bb_squares bb) = insert ?l (set (filter (bit (unset_bit ?l bb)) [0..<64]))"
      using ih by simp
    also have "\<dots> = set (filter (bit bb) [0..<64])"
      using l by (auto simp add: bit_unset_bit_iff)
    finally show ?thesis .
  qed
qed

lemma bb_squares_Nil_iff: "(bb_squares bb = []) = (bb = 0)"
  by (subst bb_squares.simps) (simp add: unset_ls1b_def)

lemma pawn_distance_step_min:
  "pawn_distance_step (get_file ksq) (get_rank ksq) sq d = min (chebyshev_distance ksq sq) d"
  by (simp add: pawn_distance_step_def chebyshev_distance_def Let_def min_def max_def)

lemma fold_pawn_distance:
  "sqs \<noteq> [] \<Longrightarrow>
   fold (pawn_distance_step (get_file ksq) (get_rank ksq)) sqs d =
   min d (Min (set (map (chebyshev_distance ksq) sqs)))"
proof (induction sqs arbitrary: d)
  case Nil
  then show ?case by simp
next
  case (Cons x xs)
  show ?case
  proof (cases "xs = []")
    case True
    then show ?thesis by (simp add: pawn_distance_step_min min.commute)
  next
    case False
    then have ne: "set (map (chebyshev_distance ksq) xs) \<noteq> {}" by simp
    have "fold (pawn_distance_step (get_file ksq) (get_rank ksq)) (x # xs) d =
          fold (pawn_distance_step (get_file ksq) (get_rank ksq)) xs
            (pawn_distance_step (get_file ksq) (get_rank ksq) x d)"
      by simp
    also have "\<dots> = min (pawn_distance_step (get_file ksq) (get_rank ksq) x d)
                       (Min (set (map (chebyshev_distance ksq) xs)))"
      by (rule Cons.IH [OF False])
    also have "\<dots> = min (min (chebyshev_distance ksq x) d) (Min (set (map (chebyshev_distance ksq) xs)))"
      by (simp only: pawn_distance_step_min)
    also have "\<dots> = min d (Min (set (map (chebyshev_distance ksq) (x # xs))))"
      using ne by (simp add: min.assoc min.left_commute min.commute)
    finally show ?thesis .
  qed
qed

lemma get_smallest_pawn_distance_eq:
  assumes "pawn_squares pos color \<noteq> []"
  shows "get_smallest_pawn_distance pos color = min 6 (nearest_pawn_distance pos color) - 1"
proof -
  let ?bb = "get_piece_bitboard pos (create_piece PIECE_TYPE_PAWN color) AND get_color_bitboard pos color"
  have s: "set (bb_squares ?bb) = set (pawn_squares pos color)"
    by (simp only: set_bb_squares pawn_squares_def)
  with assms have ne: "bb_squares ?bb \<noteq> []" by (metis set_empty)
  have "set (map (chebyshev_distance (get_king_square pos color)) (bb_squares ?bb)) =
        set (map (chebyshev_distance (get_king_square pos color)) (pawn_squares pos color))"
    using s by simp
  then show ?thesis
    unfolding get_smallest_pawn_distance_def Let_def nearest_pawn_distance_def
    by (simp only: fold_pawn_distance [OF ne])
qed

section \<open>Evaluation: the claims\<close>

lemma piece_type_lt: "piece < 12 \<Longrightarrow> get_piece_type piece < 6"
  by (simp add: get_piece_type_def drop_bit_eq_div)

lemma piece_color_01: "get_piece_color piece = 0 \<or> get_piece_color piece = 1"
  by (simp add: get_piece_color_def and_one_eq) arith

lemma get_square_value_tables:
  "get_piece_type piece < 6 \<Longrightarrow> sq < 64 \<Longrightarrow>
   init_sq_tables (get_piece_color piece, get_piece_type piece, sq) =
     \<lparr>mg = get_square_value piece sq True, eg = get_square_value piece sq False\<rparr>"
  using piece_color_01 [of piece]
  by (auto simp add: init_sq_tables_lookup get_square_value_def COLOR_WHITE_def COLOR_BLACK_def)

lemma pst_step_opponent:
  assumes "get_piece_at pos sq = piece" "piece \<noteq> PIECE_NONE" "piece < 12" "sq < 64"
    and "color = COLOR_WHITE \<or> color = COLOR_BLACK" "get_piece_color piece \<noteq> color"
  shows "pst_step pos color sq sc =
     \<lparr>mg = mg sc - get_square_value piece sq True, eg = eg sc - get_square_value piece sq False\<rparr>"
proof -
  have "lnot color = get_piece_color piece"
    using assms(5,6) piece_color_01 [of piece]
    by (auto simp add: lnot_def COLOR_WHITE_def COLOR_BLACK_def)
  then show ?thesis
    using assms get_square_value_tables [OF piece_type_lt [OF assms(3)] assms(4)]
    by (simp add: pst_step_def Let_def)
qed

lemma pst_step2_opponent:
  assumes "get_piece_at pos sq = piece" "piece \<noteq> PIECE_NONE" "get_piece_color piece \<noteq> color"
  shows "pst_step2 pos color sq sc =
     \<lparr>mg = mg sc - get_square_value piece sq True, eg = eg sc + get_square_value piece sq False\<rparr>"
  using assms by (simp add: pst_step2_def Let_def)

text \<open>
  C5. The claim: \<open>evaluate\<close> subtracts the piece-square value of every piece of the
  opponent in the middle-game and in the end-game component. The second version of
  \<open>evaluate\<close> on the position with the two bare kings, White to move: the value of the
  black king on e8 is subtracted from the middle-game component and added to the end-game
  component, and the symmetric position evaluates to -56. The first version subtracts in
  both components (\<open>pst_step_opponent\<close>) and evaluates the position to 0.
\<close>

theorem evaluate2_adds_opponent_eg:
  "get_side_to_move pos_kings = COLOR_WHITE \<and>
   get_piece_at pos_kings E8 = create_piece PIECE_TYPE_KING COLOR_BLACK \<and>
   get_square_value (create_piece PIECE_TYPE_KING COLOR_BLACK) E8 False = - 28 \<and>
   pst_step2 pos_kings COLOR_WHITE E8 \<lparr>mg = 0, eg = 0\<rparr> = \<lparr>mg = - 8, eg = - 28\<rparr> \<and>
   pst_step pos_kings COLOR_WHITE E8 \<lparr>mg = 0, eg = 0\<rparr> = \<lparr>mg = - 8, eg = 28\<rparr> \<and>
   evaluate_score2 pos_kings = \<lparr>mg = 0, eg = - 56\<rparr> \<and>
   evaluate2 pos_kings = - 56 \<and> evaluate pos_kings = 0"
  by code_simp

text \<open>
  C6. The claim: the bonus of 50 is given exactly when the side has a bishop on a light and
  a bishop on a dark square of the checkerboard. The masks of \<open>has_bishop_pair\<close> are the
  files a, c, e, g and b, d, f, h. White bishops on a1 and b2, both dark squares: the
  function holds and the bonus is given. White bishops on a1 and a2, squares of different
  colours: the function does not hold and no bonus is given.
\<close>

theorem has_bishop_pair_same_colour:
  "has_bishop_pair pos_bishops_dark COLOR_WHITE \<and>
   \<not> bishops_on_both_colours pos_bishops_dark COLOR_WHITE \<and>
   bishop_pair_score pos_bishops_dark \<lparr>mg = 0, eg = 0\<rparr> = \<lparr>mg = 50, eg = 50\<rparr> \<and>
   \<not> has_bishop_pair pos_bishops_file COLOR_WHITE \<and>
   bishops_on_both_colours pos_bishops_file COLOR_WHITE \<and>
   bishop_pair_score pos_bishops_file \<lparr>mg = 0, eg = 0\<rparr> = \<lparr>mg = 0, eg = 0\<rparr>"
  by code_simp

text \<open>
  C7, as amended. When both sides have a pawn, the end-game component gains 16 for every
  unit of the distance from the enemy king to its nearest pawn and loses 16 for every unit
  of the distance from our king to its nearest pawn, each distance counted up to 6 at
  most; the middle-game component is unchanged.
\<close>

theorem king_pawn_score_capped:
  assumes "pawn_squares pos (get_side_to_move pos) \<noteq> []"
    and "pawn_squares pos (lnot (get_side_to_move pos)) \<noteq> []"
  shows "mg (king_pawn_score pos sc) = mg sc \<and>
         eg (king_pawn_score pos sc) =
           eg sc + 16 * min 6 (nearest_pawn_distance pos (lnot (get_side_to_move pos)))
                 - 16 * min 6 (nearest_pawn_distance pos (get_side_to_move pos))"
  by (simp add: king_pawn_score_def Let_def get_smallest_pawn_distance_eq [OF assms(1)]
      get_smallest_pawn_distance_eq [OF assms(2)])

text \<open>
  C7, as stated, fails where a king is seven files from its only pawn: White king a1 and
  pawn h2, Black king e8 and pawn e7, White to move. The distances are 7 and 1; the
  end-game component changes by -80 and not by 16 * 1 - 16 * 7.
\<close>

theorem king_pawn_score_far_pawn:
  "pawn_squares pos_far_pawn COLOR_WHITE \<noteq> [] \<and> pawn_squares pos_far_pawn COLOR_BLACK \<noteq> [] \<and>
   get_side_to_move pos_far_pawn = COLOR_WHITE \<and>
   nearest_pawn_distance pos_far_pawn COLOR_WHITE = 7 \<and>
   nearest_pawn_distance pos_far_pawn COLOR_BLACK = 1 \<and>
   eg (king_pawn_score pos_far_pawn \<lparr>mg = 0, eg = 0\<rparr>) \<noteq>
     16 * nearest_pawn_distance pos_far_pawn COLOR_BLACK -
     16 * nearest_pawn_distance pos_far_pawn COLOR_WHITE"
  by code_simp

text \<open>The same position satisfies the hypotheses of the amended statement.\<close>

theorem king_pawn_score_capped_witness:
  "pawn_squares pos_far_pawn (get_side_to_move pos_far_pawn) \<noteq> [] \<and>
   pawn_squares pos_far_pawn (lnot (get_side_to_move pos_far_pawn)) \<noteq> [] \<and>
   eg (king_pawn_score pos_far_pawn \<lparr>mg = 0, eg = 0\<rparr>) = - 80"
proof -
  have a: "pawn_squares pos_far_pawn (get_side_to_move pos_far_pawn) \<noteq> []" by code_simp
  have b: "pawn_squares pos_far_pawn (lnot (get_side_to_move pos_far_pawn)) \<noteq> []" by code_simp
  have c: "nearest_pawn_distance pos_far_pawn (lnot (get_side_to_move pos_far_pawn)) = 1" by code_simp
  have d: "nearest_pawn_distance pos_far_pawn (get_side_to_move pos_far_pawn) = 7" by code_simp
  show ?thesis
    using king_pawn_score_capped [OF a b, of "\<lparr>mg = 0, eg = 0\<rparr>"] a b c d by simp
qed

section \<open>Move generation: the claims\<close>

lemmas move_type_defs =
  MOVE_OTHER_def MOVE_DOUBLE_PAWN_PUSH_def MOVE_KING_CASTLE_def MOVE_QUEEN_CASTLE_def
  MOVE_CAPTURE_def MOVE_EP_CAPTURE_def MOVE_KNIGHT_PROMOTION_def MOVE_BISHOP_PROMOTION_def
  MOVE_ROOK_PROMOTION_def MOVE_QUEEN_PROMOTION_def MOVE_KNIGHT_PROMOTION_CAPTURE_def
  MOVE_BISHOP_PROMOTION_CAPTURE_def MOVE_ROOK_PROMOTION_CAPTURE_def
  MOVE_QUEEN_PROMOTION_CAPTURE_def

lemma castling_create_move:
  "move_is_castling (create_move f t ty) = (ty = MOVE_KING_CASTLE \<or> ty = MOVE_QUEEN_CASTLE)"
  by (simp add: move_is_castling_def create_move_def get_move_type_def)

lemma filter_fold_inv:
  assumes "\<And>x l. filter P (f x l) = filter P l"
  shows "filter P (fold f xs l) = filter P l"
  by (induction xs arbitrary: l) (simp_all add: assms)

lemma upt_promotions: "[6..<10] = [6, 7, 8, 9]" "[10..<14] = [10, 11, 12, 13]"
  by (simp_all add: upt_rec)

lemma castling_add_pushes:
  "filter move_is_castling (add_pushes l from occ color) = filter move_is_castling l"
  by (simp add: add_pushes_def Let_def add_move_def castling_create_move move_type_defs
      upt_promotions)

lemma castling_add_double_pushes:
  "filter move_is_castling (add_double_pushes l from occ color) = filter move_is_castling l"
  by (simp add: add_double_pushes_def Let_def add_move_def castling_create_move move_type_defs)

lemma castling_add_pawn_attacks:
  "filter move_is_castling (add_pawn_attacks l from enemy color) = filter move_is_castling l"
  unfolding add_pawn_attacks_def Let_def
  by (rule filter_fold_inv)
     (simp add: add_move_def castling_create_move move_type_defs upt_promotions)

lemma castling_add_pawn_moves:
  "filter move_is_castling (add_pawn_moves l pos) = filter move_is_castling l"
proof -
  have ep: "filter move_is_castling
        (fold (\<lambda>from l. add_move l (create_move from sq MOVE_EP_CAPTURE)) xs l) =
      filter move_is_castling l" for sq xs
    by (rule filter_fold_inv) (simp add: add_move_def castling_create_move move_type_defs)
  have main: "filter move_is_castling
        (fold (\<lambda>from l. add_pawn_attacks (add_double_pushes (add_pushes l from occ color) from occ color)
                   from enemy color) xs l') = filter move_is_castling l'" for occ color enemy xs l'
    by (rule filter_fold_inv)
       (simp add: castling_add_pawn_attacks castling_add_double_pushes castling_add_pushes)
  show ?thesis
    unfolding add_pawn_moves_def Let_def
    by (simp only: main ep if_distrib [of "filter move_is_castling"] if_cancel)
qed

lemma castling_add_target_moves:
  "filter move_is_castling (add_target_moves l pos from targets) = filter move_is_castling l"
  unfolding add_target_moves_def
  by (rule filter_fold_inv) (simp add: add_move_def castling_create_move move_type_defs)


lemma add_king_castling_eq:
  "add_king_castling T l pos = l @ (if king_castle_ok T pos then [king_castle_move pos] else [])"
  by (auto simp add: add_king_castling_def king_castle_ok_def king_castle_move_def Let_def
      add_move_def)

lemma add_queen_castling_eq:
  "add_queen_castling T l pos = l @ (if queen_castle_ok T pos then [queen_castle_move pos] else [])"
  by (auto simp add: add_queen_castling_def queen_castle_ok_def queen_castle_move_def Let_def
      add_move_def)

lemma castling_castle_moves:
  "move_is_castling (king_castle_move pos)" "move_is_castling (queen_castle_move pos)"
  by (simp_all add: king_castle_move_def queen_castle_move_def castling_create_move)

lemma castling_add_king_moves:
  "filter move_is_castling (add_king_moves T l pos) =
   filter move_is_castling l @ (if king_castle_ok T pos then [king_castle_move pos] else []) @
   (if queen_castle_ok T pos then [queen_castle_move pos] else [])"
  by (simp add: add_king_moves_def Let_def castling_add_target_moves add_king_castling_eq
      add_queen_castling_eq castling_castle_moves)

lemma add_moves_pieces:
  assumes "piece_type = PIECE_TYPE_KNIGHT \<or> piece_type = PIECE_TYPE_ROOK \<or>
           piece_type = PIECE_TYPE_BISHOP \<or> piece_type = PIECE_TYPE_QUEEN"
  shows "\<exists>l'. add_moves T l piece_type pos = Some l' \<and>
              filter move_is_castling l' = filter move_is_castling l"
proof -
  have pt: "\<exists>targets. piece_targets T piece_type sq occ = Some targets" for sq occ
    using assms by (auto simp add: piece_targets_def)
  have loop: "\<exists>l'. fold (\<lambda>from r.
                 case r of None \<Rightarrow> None
                 | Some l \<Rightarrow>
                     (case piece_targets T piece_type from occ of None \<Rightarrow> None
                      | Some targets \<Rightarrow>
                          Some (add_target_moves l pos from (targets AND NOT friendly))))
                xs (Some l) = Some l' \<and> filter move_is_castling l' = filter move_is_castling l"
    for xs occ friendly l
  proof (induction xs arbitrary: l)
    case Nil
    then show ?case by simp
  next
    case (Cons x xs)
    from pt [of x occ] obtain targets where t: "piece_targets T piece_type x occ = Some targets"
      by blast
    from Cons.IH [of "add_target_moves l pos x (targets AND NOT friendly)"]
    show ?case by (simp add: t castling_add_target_moves)
  qed
  have ne: "piece_type \<noteq> PIECE_TYPE_PAWN" "piece_type \<noteq> PIECE_TYPE_KING"
    using assms by (auto simp add: enum_defs)
  show ?thesis
    unfolding add_moves_def Let_def using ne loop by simp
qed

lemma generate_moves_castling:
  "\<exists>list. generate_moves T pos = Some list \<and>
     filter move_is_castling list =
       (if king_castle_ok T pos then [king_castle_move pos] else []) @
       (if queen_castle_ok T pos then [queen_castle_move pos] else [])"
proof -
  have p: "add_moves T [] PIECE_TYPE_PAWN pos = Some (add_pawn_moves [] pos)"
    by (simp add: add_moves_def)
  obtain l2 where l2: "add_moves T (add_pawn_moves [] pos) PIECE_TYPE_KNIGHT pos = Some l2"
      "filter move_is_castling l2 = filter move_is_castling (add_pawn_moves [] pos)"
    using add_moves_pieces [of PIECE_TYPE_KNIGHT T "add_pawn_moves [] pos" pos] by auto
  obtain l3 where l3: "add_moves T l2 PIECE_TYPE_ROOK pos = Some l3"
      "filter move_is_castling l3 = filter move_is_castling l2"
    using add_moves_pieces [of PIECE_TYPE_ROOK T l2 pos] by auto
  obtain l4 where l4: "add_moves T l3 PIECE_TYPE_BISHOP pos = Some l4"
      "filter move_is_castling l4 = filter move_is_castling l3"
    using add_moves_pieces [of PIECE_TYPE_BISHOP T l3 pos] by auto
  obtain l5 where l5: "add_moves T l4 PIECE_TYPE_QUEEN pos = Some l5"
      "filter move_is_castling l5 = filter move_is_castling l4"
    using add_moves_pieces [of PIECE_TYPE_QUEEN T l4 pos] by auto
  have k: "add_moves T l5 PIECE_TYPE_KING pos = Some (add_king_moves T l5 pos)"
    by (simp add: add_moves_def enum_defs)
  have g: "generate_moves T pos = Some (add_king_moves T l5 pos)"
    by (simp add: generate_moves_def p l2 l3 l4 l5 k)
  have "filter move_is_castling l5 = []"
    by (simp add: l5 l4 l3 l2 castling_add_pawn_moves)
  then show ?thesis
    using g by (simp add: castling_add_king_moves)
qed




text \<open>
  C9. The generator never aborts. When the list of pseudo-legal moves is empty,
  \<open>get_pseudo_legal_moves\<close> returns \<open>NULL\<close> and the length 0; otherwise it returns the
  list and its length.
\<close>

theorem get_pseudo_legal_moves_null:
  "\<exists>list. generate_moves T pos = Some list \<and>
     (list = [] \<longrightarrow> get_pseudo_legal_moves T pos = Some (None, 0)) \<and>
     (list \<noteq> [] \<longrightarrow> get_pseudo_legal_moves T pos = Some (Some list, length list))"
proof -
  from generate_moves_castling [of T pos] obtain list where
    g: "generate_moves T pos = Some list" by blast
  then show ?thesis
    by (simp add: get_pseudo_legal_moves_def Let_def)
qed

text \<open>
  A position in which the side to move has no pseudo-legal move: the white king on h8
  behind its own pawns on g8, g7 and h7.
\<close>

theorem get_pseudo_legal_moves_null_witness:
  "generate_moves plain_tables pos_boxed = Some [] \<and>
   get_pseudo_legal_moves plain_tables pos_boxed = Some (None, 0)"
proof -
  have g: "generate_moves plain_tables pos_boxed = Some []" by code_simp
  show ?thesis
    using get_pseudo_legal_moves_null [of plain_tables pos_boxed] g by auto
qed

end
